theory Spec2Isabelle
  imports Main "HOL-Library.Char_ord" "HOL-Library.List_Lexorder"
begin

section \<open>JSON documents\<close>

text \<open>
  The loaders, the store and the diff renderer work on the values that \<^verbatim>\<open>JSON.parse\<close> /
  \<^verbatim>\<open>JSON5.parse\<close> produce:

  \<^verbatim>\<open>type JsonValue = string | number | boolean | null | JsonObject | JsonArray\<close>

  An object is the list of its own properties in the order \<^verbatim>\<open>Object.keys\<close> enumerates them.
  In the diff renderer and the loaders a property read \<^verbatim>\<open>obj[key]\<close> is \<open>map_of obj key\<close>,
  with \<open>None\<close> for \<^verbatim>\<open>undefined\<close>, and \<^verbatim>\<open>key in obj\<close> is \<open>map_of obj key \<noteq> None\<close> (a parsed
  document never holds \<^verbatim>\<open>undefined\<close> as a value): they are modelled on documents whose
  keys do not name a member of \<^verbatim>\<open>Object.prototype\<close>. The merge engine is modelled on the
  run-time values of the next section, where a read, an assignment and \<^verbatim>\<open>in\<close> go through
  \<^verbatim>\<open>Object.prototype\<close>. Numbers are the integers.
\<close>

datatype json =
    JNull
  | JBool bool
  | JNumber int
  | JString string
  | JArray "json list"
  | JObject "(string \<times> json) list"

lemma size_entry_less:
  "(k, v) \<in> set kvs \<Longrightarrow> size v < size_list (size_prod (\<lambda>_. 0) size) kvs"
  by (induction kvs) auto

section \<open>Run-time values\<close>

text \<open>
  \<^verbatim>\<open>deepMerge\<close> and \<^verbatim>\<open>deepClone\<close> (\<^verbatim>\<open>utils/merge-config.ts\<close>) are typed on \<^verbatim>\<open>JsonValue\<close>, but
  they read properties with \<^verbatim>\<open>obj[key]\<close> and \<^verbatim>\<open>key in obj\<close> and write them with
  \<^verbatim>\<open>result[key] = value\<close> on objects whose prototype is \<^verbatim>\<open>Object.prototype\<close>. A read of a
  key that the object does not own finds the members of \<^verbatim>\<open>Object.prototype\<close>, so the values
  that reach the result include the built-in functions of \<^verbatim>\<open>Object.prototype\<close>:
  \<open>VFunction name\<close> is the function that \<^verbatim>\<open>Object.prototype\<close> holds under \<open>name\<close>. Every
  \<open>VObject\<close> is an ordinary object, with prototype \<^verbatim>\<open>Object.prototype\<close>, given by the list
  of its own properties.
\<close>

datatype jsValue =
    VNull
  | VBool bool
  | VNumber int
  | VString string
  | VArray "jsValue list"
  | VObject "(string \<times> jsValue) list"
  | VFunction string

text \<open>A parsed document as a run-time value.\<close>

fun ofJson :: "json \<Rightarrow> jsValue" where
  "ofJson JNull = VNull"
| "ofJson (JBool b) = VBool b"
| "ofJson (JNumber n) = VNumber n"
| "ofJson (JString s) = VString s"
| "ofJson (JArray xs) = VArray (map ofJson xs)"
| "ofJson (JObject kvs) = VObject (map (\<lambda>(k, v). (k, ofJson v)) kvs)"

lemma size_property_less:
  "(k, v) \<in> set kvs \<Longrightarrow> size v < size_list (size_prod (\<lambda>_. 0) size) kvs"
  for v :: jsValue
  by (induction kvs) auto

subsection \<open>Properties of an ordinary object\<close>

text \<open>
  The own properties of \<^verbatim>\<open>Object.prototype\<close> are eleven functions and the accessor
  \<^verbatim>\<open>__proto__\<close>; none of them is enumerable, so \<^verbatim>\<open>Object.keys\<close> of an ordinary object lists
  its own properties only.
\<close>

definition OBJECT_PROTOTYPE_FUNCTIONS :: "string list" where
  "OBJECT_PROTOTYPE_FUNCTIONS =
     [''constructor'', ''__defineGetter__'', ''__defineSetter__'', ''hasOwnProperty'',
      ''__lookupGetter__'', ''__lookupSetter__'', ''isPrototypeOf'', ''propertyIsEnumerable'',
      ''toString'', ''valueOf'', ''toLocaleString'']"

definition inObjectPrototype :: "string \<Rightarrow> bool" where
  "inObjectPrototype key \<longleftrightarrow> key \<in> set OBJECT_PROTOTYPE_FUNCTIONS \<or> key = ''__proto__''"

text \<open>
  \<^verbatim>\<open>obj[key]\<close> on an ordinary object: the own property if there is one, else the member of
  \<^verbatim>\<open>Object.prototype\<close> of that name, where the getter of \<^verbatim>\<open>__proto__\<close> returns the prototype
  of \<^verbatim>\<open>obj\<close>, the object \<^verbatim>\<open>Object.prototype\<close> itself; else \<^verbatim>\<open>undefined\<close>.
\<close>

datatype property = Undefined | Value jsValue | ObjectPrototype

definition getProperty :: "(string \<times> jsValue) list \<Rightarrow> string \<Rightarrow> property" where
  "getProperty obj key =
     (case map_of obj key of
        Some v \<Rightarrow> Value v
      | None \<Rightarrow>
          if key \<in> set OBJECT_PROTOTYPE_FUNCTIONS then Value (VFunction key)
          else if key = ''__proto__'' then ObjectPrototype
          else Undefined)"

text \<open>\<^verbatim>\<open>key in obj\<close> on an ordinary object.\<close>

definition hasProperty :: "(string \<times> jsValue) list \<Rightarrow> string \<Rightarrow> bool" where
  "hasProperty obj key \<longleftrightarrow> map_of obj key \<noteq> None \<or> inObjectPrototype key"

text \<open>
  \<^verbatim>\<open>result[key] = value\<close> on the object under construction, which starts as \<^verbatim>\<open>{}\<close>. For
  every key but \<^verbatim>\<open>__proto__\<close> the assignment creates an own property (the members of
  \<^verbatim>\<open>Object.prototype\<close> are writable data properties, which an assignment shadows). For the
  key \<^verbatim>\<open>__proto__\<close> it calls the setter of \<^verbatim>\<open>Object.prototype\<close>, which creates no property:
  it replaces the prototype of \<^verbatim>\<open>result\<close> when the value is an object, an array, a function
  or \<^verbatim>\<open>null\<close>, and does nothing for any other value.

  An object whose prototype has been replaced is not an ordinary object and is outside the
  values modelled: the construction of an object yields \<open>None\<close> as soon as a prototype is
  replaced, in the object itself or in a value it is to hold, and \<open>Some\<close> of the own
  properties of the ordinary object it has built otherwise.

  \<open>assignProperties\<close> performs the assignments of a list of keys and values in order on a
  fresh object; each key is assigned once.
\<close>

fun replacesPrototype :: "jsValue \<Rightarrow> bool" where
  "replacesPrototype (VBool b) = False"
| "replacesPrototype (VNumber n) = False"
| "replacesPrototype (VString s) = False"
| "replacesPrototype v = True"

fun assignProperties ::
  "(string \<times> jsValue option) list \<Rightarrow> (string \<times> jsValue) list option" where
  "assignProperties [] = Some []"
| "assignProperties ((key, None) # rest) = None"
| "assignProperties ((key, Some v) # rest) =
     (if key = ''__proto__''
      then (if replacesPrototype v then None else assignProperties rest)
      else map_option (\<lambda>result. (key, v) # result) (assignProperties rest))"

subsection \<open>Deep clone\<close>

text \<open>
  \<^verbatim>\<open>typeof value === "object" && value !== null && !Array.isArray(value)\<close>; \<^verbatim>\<open>typeof\<close> of
  a function is \<^verbatim>\<open>"function"\<close>.
\<close>

fun isPlainObject :: "jsValue \<Rightarrow> bool" where
  "isPlainObject (VObject kvs) = True"
| "isPlainObject v = False"

text \<open>
  \<^verbatim>\<open>deepClone\<close>: \<^verbatim>\<open>null\<close> and every value whose \<^verbatim>\<open>typeof\<close> is not \<^verbatim>\<open>"object"\<close> are returned
  as they are, an array is mapped element by element, an object is rebuilt by assigning
  the clone of each own property to a fresh object.
\<close>

fun deepClone :: "jsValue \<Rightarrow> jsValue option" where
  "deepClone (VArray xs) = map_option VArray (those (map deepClone xs))"
| "deepClone (VObject kvs) =
     map_option VObject (assignProperties (map (\<lambda>(key, v). (key, deepClone v)) kvs))"
| "deepClone v = Some v"

section \<open>Deep merge\<close>

text \<open>
  \<^verbatim>\<open>deepMerge(base, override)\<close>. The first loop walks \<^verbatim>\<open>Object.keys(baseObj)\<close>, reads
  \<^verbatim>\<open>overrideObj[key]\<close> and assigns \<^verbatim>\<open>result[key]\<close> once per key; the second loop assigns the
  keys of the override for which \<^verbatim>\<open>key in baseObj\<close> is false.

  When \<^verbatim>\<open>overrideObj[key]\<close> is \<^verbatim>\<open>Object.prototype\<close> (the key is \<^verbatim>\<open>__proto__\<close> and the override
  does not own it), \<^verbatim>\<open>isPlainObject\<close> holds of it, and \<^verbatim>\<open>result.__proto__\<close> is assigned either
  \<^verbatim>\<open>deepMerge(baseVal, Object.prototype)\<close> or \<^verbatim>\<open>deepClone(Object.prototype)\<close>, an object in
  both cases: the prototype of \<^verbatim>\<open>result\<close> is replaced.
\<close>

function deepMerge ::
  "(string \<times> jsValue) list \<Rightarrow> (string \<times> jsValue) list \<Rightarrow> (string \<times> jsValue) list option" where
  "deepMerge baseObj overrideObj =
     assignProperties
       (map (\<lambda>(key, baseVal).
          (key, case getProperty overrideObj key of
                  Undefined \<Rightarrow> deepClone baseVal
                | Value overrideVal \<Rightarrow>
                    (case (baseVal, overrideVal) of
                       (VObject b, VObject ov) \<Rightarrow> map_option VObject (deepMerge b ov)
                     | _ \<Rightarrow> deepClone overrideVal)
                | ObjectPrototype \<Rightarrow> None)) baseObj
        @ map (\<lambda>(key, v). (key, deepClone v))
            (filter (\<lambda>(key, v). \<not> hasProperty baseObj key) overrideObj))"
  by pat_completeness auto
termination
proof (relation "measure (\<lambda>(b, ov). size_list (size_prod (\<lambda>_. 0) size) b)")
  show "wf (measure (\<lambda>(b, ov). size_list (size_prod (\<lambda>_. 0) size) b))"
    by simp
next
  fix baseObj overrideObj :: "(string \<times> jsValue) list"
  fix x :: "string \<times> jsValue" and key :: string and baseVal ov x1 x2 :: jsValue
  fix b ov' :: "(string \<times> jsValue) list"
  assume "x \<in> set baseObj" "(key, baseVal) = x" "(x1, x2) = (baseVal, ov)" "x1 = VObject b"
  then have "(key, VObject b) \<in> set baseObj" by simp
  from size_property_less [OF this]
  show "((b, ov'), (baseObj, overrideObj))
          \<in> measure (\<lambda>(b, ov). size_list (size_prod (\<lambda>_. 0) size) b)"
    by simp
qed

declare deepMerge.simps [simp del]

subsection \<open>Notions used to state the properties of the merge\<close>

text \<open>
  A value none of whose keys, at any depth, names a member of \<^verbatim>\<open>Object.prototype\<close>.
\<close>

fun protoFree :: "jsValue \<Rightarrow> bool" where
  "protoFree (VArray xs) = list_all protoFree xs"
| "protoFree (VObject kvs) = list_all (\<lambda>(key, v). \<not> inObjectPrototype key \<and> protoFree v) kvs"
| "protoFree v = True"

text \<open>
  The merge of two documents read as key-value maps of their own properties. It is what
  \<^verbatim>\<open>deepMerge\<close> computes on documents none of whose keys names a member of
  \<^verbatim>\<open>Object.prototype\<close> (lemma \<open>deepMerge_protoFree\<close>), and serves the proofs about them.
\<close>

function ownMerge ::
  "(string \<times> jsValue) list \<Rightarrow> (string \<times> jsValue) list \<Rightarrow> (string \<times> jsValue) list" where
  "ownMerge baseObj overrideObj =
     map (\<lambda>(key, baseVal).
        (key, case map_of overrideObj key of
                None \<Rightarrow> baseVal
              | Some overrideVal \<Rightarrow>
                  (case (baseVal, overrideVal) of
                     (VObject b, VObject ov) \<Rightarrow> VObject (ownMerge b ov)
                   | _ \<Rightarrow> overrideVal))) baseObj
     @ filter (\<lambda>(key, v). map_of baseObj key = None) overrideObj"
  by pat_completeness auto
termination
proof (relation "measure (\<lambda>(b, ov). size_list (size_prod (\<lambda>_. 0) size) b)")
  show "wf (measure (\<lambda>(b, ov). size_list (size_prod (\<lambda>_. 0) size) b))"
    by simp
next
  fix baseObj overrideObj :: "(string \<times> jsValue) list"
  fix x :: "string \<times> jsValue" and key :: string and baseVal ov x1 x2 :: jsValue
  fix b ov' :: "(string \<times> jsValue) list"
  assume "x \<in> set baseObj" "(key, baseVal) = x" "(x1, x2) = (baseVal, ov)" "x1 = VObject b"
  then have "(key, VObject b) \<in> set baseObj" by simp
  from size_property_less [OF this]
  show "((b, ov'), (baseObj, overrideObj))
          \<in> measure (\<lambda>(b, ov). size_list (size_prod (\<lambda>_. 0) size) b)"
    by simp
qed

declare ownMerge.simps [simp del]

text \<open>
  The value \<open>ownMerge\<close> stores under a key of the base, given what the override holds
  under the same key (\<open>None\<close>: the override does not have the key).
\<close>

definition mergeValue :: "jsValue \<Rightarrow> jsValue option \<Rightarrow> jsValue" where
  "mergeValue baseVal ovr =
     (case ovr of
        None \<Rightarrow> baseVal
      | Some overrideVal \<Rightarrow>
          (case (baseVal, overrideVal) of
             (VObject b, VObject ov) \<Rightarrow> VObject (ownMerge b ov)
           | _ \<Rightarrow> overrideVal))"

text \<open>
  A leaf is a value that is not a plain key-value document. \<open>leafAt doc path\<close> is the leaf
  that a document holds at a key path: every key of the path but the last leads to a
  nested document, and the last one to a leaf. \<open>holdsNothing doc path\<close>: following the path
  in the document ends at a document that lacks the next key, so that the document holds
  neither a value at the path nor a leaf on the way to it.
\<close>

fun leafAt :: "(string \<times> jsValue) list \<Rightarrow> string list \<Rightarrow> jsValue option" where
  "leafAt doc [] = None"
| "leafAt doc [key] =
     (case map_of doc key of
        Some v \<Rightarrow> if isPlainObject v then None else Some v
      | None \<Rightarrow> None)"
| "leafAt doc (key # next # path) =
     (case map_of doc key of
        Some (VObject nested) \<Rightarrow> leafAt nested (next # path)
      | _ \<Rightarrow> None)"

fun holdsNothing :: "(string \<times> jsValue) list \<Rightarrow> string list \<Rightarrow> bool" where
  "holdsNothing doc [] = False"
| "holdsNothing doc (key # path) =
     (case map_of doc key of
        None \<Rightarrow> True
      | Some (VObject nested) \<Rightarrow> holdsNothing nested path
      | Some _ \<Rightarrow> False)"

text \<open>
  The side condition under which merging is associative: wherever the first and the third
  document both hold a plain key-value document under a key, the second holds either
  nothing or a plain key-value document there, and so on below that key.
\<close>

function shadowFree ::
  "(string \<times> jsValue) list \<Rightarrow> (string \<times> jsValue) list \<Rightarrow> (string \<times> jsValue) list \<Rightarrow> bool" where
  "shadowFree a b c =
     list_all (\<lambda>(key, aVal).
        (case (aVal, map_of c key) of
           (VObject a', Some (VObject c')) \<Rightarrow>
              (case map_of b key of
                 None \<Rightarrow> True
               | Some (VObject b') \<Rightarrow> shadowFree a' b' c'
               | Some _ \<Rightarrow> False)
         | _ \<Rightarrow> True)) a"
  by pat_completeness auto
termination
proof (relation "measure (\<lambda>(a, b, c). size_list (size_prod (\<lambda>_. 0) size) a)")
  show "wf (measure (\<lambda>(a, b, c). size_list (size_prod (\<lambda>_. 0) size) a))"
    by simp
next
  fix a b c :: "(string \<times> jsValue) list"
  fix x :: "string \<times> jsValue" and key :: string and aVal x1 :: jsValue
  fix x2 :: "jsValue option" and a' c' b' :: "(string \<times> jsValue) list"
  assume "x \<in> set a" "(key, aVal) = x" "(x1, x2) = (aVal, map_of c key)" "x1 = VObject a'"
  then have "(key, VObject a') \<in> set a" by simp
  from size_property_less [OF this]
  show "((a', b', c'), (a, b, c))
          \<in> measure (\<lambda>(a, b, c). size_list (size_prod (\<lambda>_. 0) size) a)"
    by simp
qed

declare shadowFree.simps [simp del]

section \<open>Diff renderer\<close>

subsection \<open>Strings\<close>

text \<open>
  \<^verbatim>\<open>"  ".repeat(n)\<close>, \<^verbatim>\<open>items.join(sep)\<close>, \<^verbatim>\<open>String(n)\<close> for an integer, and
  \<^verbatim>\<open>JSON.stringify(value)\<close> (no indentation argument). \<open>dq\<close> is the double quote, \<open>bs\<close> the
  backslash, \<open>nl\<close> the line feed.
\<close>

definition dq :: char where
  "dq = CHR 0x22"

definition bs :: char where
  "bs = CHR 0x5C"

definition nl :: char where
  "nl = CHR 0x0A"

definition repeat :: "string \<Rightarrow> nat \<Rightarrow> string" where
  "repeat s n = concat (replicate n s)"

fun join :: "string \<Rightarrow> string list \<Rightarrow> string" where
  "join sep [] = []"
| "join sep [x] = x"
| "join sep (x # y # ys) = x @ sep @ join sep (y # ys)"

definition digitChar :: "nat \<Rightarrow> char" where
  "digitChar n = ''0123456789abcdef'' ! n"

fun showNat :: "nat \<Rightarrow> string" where
  "showNat n = (if n < 10 then [digitChar n] else showNat (n div 10) @ [digitChar (n mod 10)])"

declare showNat.simps [simp del]

definition showInt :: "int \<Rightarrow> string" where
  "showInt i = (if i < 0 then CHR ''-'' # showNat (nat (- i)) else showNat (nat i))"

definition escapeChar :: "char \<Rightarrow> string" where
  "escapeChar c =
     (if c = dq then [bs, dq]
      else if c = bs then [bs, bs]
      else if c = CHR 0x08 then [bs, CHR ''b'']
      else if c = CHR 0x0C then [bs, CHR ''f'']
      else if c = CHR 0x0A then [bs, CHR ''n'']
      else if c = CHR 0x0D then [bs, CHR ''r'']
      else if c = CHR 0x09 then [bs, CHR ''t'']
      else if (of_char c :: nat) < 32
        then [bs, CHR ''u'', CHR ''0'', CHR ''0'',
              digitChar (of_char c div 16), digitChar (of_char c mod 16)]
      else [c])"

definition quoteString :: "string \<Rightarrow> string" where
  "quoteString s = dq # concat (map escapeChar s) @ [dq]"

fun stringify :: "json \<Rightarrow> string" where
  "stringify JNull = ''null''"
| "stringify (JBool b) = (if b then ''true'' else ''false'')"
| "stringify (JNumber n) = showInt n"
| "stringify (JString s) = quoteString s"
| "stringify (JArray xs) = ''['' @ join '','' (map stringify xs) @ '']''"
| "stringify (JObject kvs) =
     ''{'' @ join '','' (map (\<lambda>(k, v). quoteString k @ '':'' @ stringify v) kvs) @ ''}''"

subsection \<open>Diff lines\<close>

text \<open>
  \<^verbatim>\<open>interface DiffLine { type; key; path; globalValue?; projectValue?; mergedValue? }\<close>.
  An optional field that a branch leaves out, or sets to \<^verbatim>\<open>undefined\<close>, is \<open>None\<close>.
\<close>

datatype diffType = Unchanged | Added | Removed | Modified

record diffLine =
  dlType :: diffType
  dlKey :: string
  dlPath :: string
  globalValue :: "json option"
  projectValue :: "json option"
  mergedValue :: "json option"

text \<open>
  \<^verbatim>\<open>collectDiffLines(global, merged, project, pathPrefix)\<close>: one line per key of the sorted
  union of the three key sets. \<^verbatim>\<open>Array.prototype.sort\<close> without a comparator orders
  strings by their code units, which on the characters modelled here is the lexicographic
  order of \<open>string\<close>.
\<close>

function collectDiffLines ::
  "(string \<times> json) list \<Rightarrow> (string \<times> json) list \<Rightarrow> (string \<times> json) list \<Rightarrow> string
     \<Rightarrow> diffLine list" where
  "collectDiffLines global merged project pathPrefix =
     map (\<lambda>key.
        (case (map_of global key, map_of merged key) of
           (Some (JObject globalVal), Some (JObject mergedVal)) \<Rightarrow>
             (if length (collectDiffLines globalVal mergedVal
                          (case map_of project key of Some (JObject projectVal) \<Rightarrow> projectVal | _ \<Rightarrow> [])
                          (if pathPrefix \<noteq> [] then pathPrefix @ ''.'' @ key else key)) > 0
              then \<lparr> dlType = (if map_of project key \<noteq> None then Modified else Unchanged),
                     dlKey = key,
                     dlPath = (if pathPrefix \<noteq> [] then pathPrefix @ ''.'' @ key else key),
                     globalValue = map_of global key,
                     projectValue = map_of project key,
                     mergedValue = map_of merged key \<rparr>
              else \<lparr> dlType = Unchanged,
                     dlKey = key,
                     dlPath = (if pathPrefix \<noteq> [] then pathPrefix @ ''.'' @ key else key),
                     globalValue = None,
                     projectValue = None,
                     mergedValue = map_of merged key \<rparr>)
         | _ \<Rightarrow>
             (if map_of project key \<noteq> None \<and> \<not> map_of global key \<noteq> None
              then \<lparr> dlType = Added,
                     dlKey = key,
                     dlPath = (if pathPrefix \<noteq> [] then pathPrefix @ ''.'' @ key else key),
                     globalValue = None,
                     projectValue = map_of project key,
                     mergedValue = map_of merged key \<rparr>
              else if map_of project key \<noteq> None \<and> map_of global key \<noteq> None
              then (if map_option stringify (map_of global key)
                         \<noteq> map_option stringify (map_of project key)
                    then \<lparr> dlType = Modified,
                           dlKey = key,
                           dlPath = (if pathPrefix \<noteq> [] then pathPrefix @ ''.'' @ key else key),
                           globalValue = map_of global key,
                           projectValue = map_of project key,
                           mergedValue = map_of merged key \<rparr>
                    else \<lparr> dlType = Unchanged,
                           dlKey = key,
                           dlPath = (if pathPrefix \<noteq> [] then pathPrefix @ ''.'' @ key else key),
                           globalValue = None,
                           projectValue = None,
                           mergedValue = map_of merged key \<rparr>)
              else \<lparr> dlType = Unchanged,
                     dlKey = key,
                     dlPath = (if pathPrefix \<noteq> [] then pathPrefix @ ''.'' @ key else key),
                     globalValue = map_of global key,
                     projectValue = None,
                     mergedValue = map_of merged key \<rparr>)))
       (sort (remdups (map fst global @ map fst merged @ map fst project)))"
  by pat_completeness auto
termination
proof (relation "measure (\<lambda>(g, m, p, pre). size_list (size_prod (\<lambda>_. 0) size) g)")
  show "wf (measure (\<lambda>(g, m, p, pre :: string). size_list (size_prod (\<lambda>_. 0) size) (g :: (string \<times> json) list)))"
    by simp
next
  fix global merged project :: "(string \<times> json) list" and pathPrefix key :: string
  fix x y :: "json option" and x2 x2a :: json and globalVal mergedVal :: "(string \<times> json) list"
  assume "(x, y) = (map_of global key, map_of merged key)" "x = Some x2" "x2 = JObject globalVal"
  then have "map_of global key = Some (JObject globalVal)" by simp
  then have "(key, JObject globalVal) \<in> set global" by (rule map_of_SomeD)
  from size_entry_less [OF this]
  show "((globalVal, mergedVal,
          case map_of project key of None \<Rightarrow> []
          | Some (JObject projectVal) \<Rightarrow> projectVal | Some _ \<Rightarrow> [],
          if pathPrefix \<noteq> [] then pathPrefix @ ''.'' @ key else key),
         (global, merged, project, pathPrefix))
        \<in> measure (\<lambda>(g, m, p, pre). size_list (size_prod (\<lambda>_. 0) size) g)"
    by simp
qed

declare collectDiffLines.simps [simp del]

subsection \<open>Rendering\<close>

text \<open>
  \<^verbatim>\<open>formatJsonValue(value, indentLevel)\<close>; \<open>None\<close> is \<^verbatim>\<open>undefined\<close>.
\<close>

function formatJsonValue :: "json option \<Rightarrow> nat \<Rightarrow> string" where
  "formatJsonValue None indentLevel = ''undefined''"
| "formatJsonValue (Some JNull) indentLevel = ''null''"
| "formatJsonValue (Some (JString s)) indentLevel = stringify (JString s)"
| "formatJsonValue (Some (JNumber n)) indentLevel = showInt n"
| "formatJsonValue (Some (JBool b)) indentLevel = (if b then ''true'' else ''false'')"
| "formatJsonValue (Some (JArray xs)) indentLevel =
     (if length xs = 0 then ''[]''
      else if length (join '', '' (map (\<lambda>v. formatJsonValue (Some v) (indentLevel + 1)) xs)) < 60
      then ''['' @ join '', '' (map (\<lambda>v. formatJsonValue (Some v) (indentLevel + 1)) xs) @ '']''
      else ''['' @ [nl]
           @ join ('','' @ [nl])
               (map (\<lambda>item. repeat ''  '' (indentLevel + 1) @ item)
                  (map (\<lambda>v. formatJsonValue (Some v) (indentLevel + 1)) xs))
           @ [nl] @ repeat ''  '' indentLevel @ '']'')"
| "formatJsonValue (Some (JObject kvs)) indentLevel =
     (if length kvs = 0 then ''{}''
      else if length (join '', ''
                 (map (\<lambda>(k, v). [dq] @ k @ [dq] @ '': '' @ formatJsonValue (Some v) (indentLevel + 1))
                    kvs)) < 60
      then ''{ '' @ join '', ''
                 (map (\<lambda>(k, v). [dq] @ k @ [dq] @ '': '' @ formatJsonValue (Some v) (indentLevel + 1))
                    kvs) @ '' }''
      else ''{'' @ [nl]
           @ join ('','' @ [nl])
               (map (\<lambda>pair. repeat ''  '' (indentLevel + 1) @ pair)
                  (map (\<lambda>(k, v). [dq] @ k @ [dq] @ '': '' @ formatJsonValue (Some v) (indentLevel + 1))
                     kvs))
           @ [nl] @ repeat ''  '' indentLevel @ ''}'')"
  by pat_completeness auto
termination
proof (relation "measure (\<lambda>(v, i). case v of None \<Rightarrow> 0 | Some j \<Rightarrow> size j)")
  show "wf (measure (\<lambda>(v :: json option, i :: nat). case v of None \<Rightarrow> 0 | Some j \<Rightarrow> size j))"
    by simp
qed (auto simp: less_Suc_eq_le size_list_estimation' dest!: size_entry_less)

text \<open>
  \<^verbatim>\<open>chalk.gray\<close>, \<^verbatim>\<open>chalk.green\<close>, \<^verbatim>\<open>chalk.red\<close> belong to a library: the renderer takes the
  colouring function as its first argument.
\<close>

datatype colour = Gray | Green | Red

fun formatDiffLines :: "(colour \<Rightarrow> string \<Rightarrow> string) \<Rightarrow> diffLine list \<Rightarrow> nat \<Rightarrow> string list" where
  "formatDiffLines chalk [] indentLevel = []"
| "formatDiffLines chalk (diff # rest) indentLevel =
     (if dlType diff = Added
      then [chalk Green (repeat ''  '' indentLevel @ ''+ '' @ [dq] @ dlKey diff @ [dq] @ '': ''
                          @ formatJsonValue (mergedValue diff) indentLevel
                          @ (if rest = [] then '''' else '',''))
            @ chalk Gray '' // [project]'']
      else if dlType diff = Modified
      then [chalk Red (repeat ''  '' indentLevel @ ''- '' @ [dq] @ dlKey diff @ [dq] @ '': ''
                        @ formatJsonValue (globalValue diff) indentLevel)
            @ chalk Gray '' // [global]'',
            chalk Green (repeat ''  '' indentLevel @ ''+ '' @ [dq] @ dlKey diff @ [dq] @ '': ''
                          @ formatJsonValue (mergedValue diff) indentLevel
                          @ (if rest = [] then '''' else '',''))
            @ chalk Gray '' // [project]'']
      else [repeat ''  '' indentLevel @ [dq] @ dlKey diff @ [dq] @ '': ''
            @ formatJsonValue (mergedValue diff) indentLevel
            @ (if rest = [] then '''' else '','')])
     @ formatDiffLines chalk rest indentLevel"

definition generateDiffOutput ::
  "(colour \<Rightarrow> string \<Rightarrow> string) \<Rightarrow> (string \<times> json) list \<Rightarrow> (string \<times> json) list
     \<Rightarrow> (string \<times> json) list \<Rightarrow> string" where
  "generateDiffOutput chalk global merged projectOverrides =
     join [nl]
       ([chalk Gray ''// Merged configuration (project overrides global)'',
         chalk Gray (''// '' @ repeat ''-'' 50),
         ''{'']
        @ formatDiffLines chalk (collectDiffLines global merged projectOverrides '''') 1
        @ [''}''])"

section \<open>File system, paths and the scope resolver\<close>

text \<open>
  A resolved absolute path is the list of its components below the file system root; the
  root itself (\<^verbatim>\<open>path.parse(p).root\<close>) is the empty list. \<^verbatim>\<open>path.join(dir, name)\<close> appends
  a component and \<^verbatim>\<open>path.dirname\<close> drops the last one. A file system maps a path to what
  is stored there.
\<close>

type_synonym path = "string list"

datatype node = File string | Directory

type_synonym filesys = "path \<Rightarrow> node option"

text \<open>A thrown \<^verbatim>\<open>Error\<close> with its message; a computation that can throw returns \<open>exn + 'a\<close>.\<close>

datatype exn = Exn string

definition dirname :: "path \<Rightarrow> path" where
  "dirname p = butlast p"

definition existsSync :: "filesys \<Rightarrow> path \<Rightarrow> bool" where
  "existsSync fs p = (fs p \<noteq> None)"

text \<open>\<^verbatim>\<open>fs.statSync(p).isDirectory()\<close>, for a path that exists.\<close>

definition isDirectory :: "filesys \<Rightarrow> path \<Rightarrow> bool" where
  "isDirectory fs p = (fs p = Some Directory)"

definition readFileSync :: "filesys \<Rightarrow> path \<Rightarrow> exn + string" where
  "readFileSync fs p =
     (case fs p of
        Some (File content) \<Rightarrow> Inr content
      | Some Directory \<Rightarrow> Inl (Exn ''EISDIR'')
      | None \<Rightarrow> Inl (Exn ''ENOENT''))"

text \<open>
  \<^verbatim>\<open>fs.writeFileSync\<close> and \<^verbatim>\<open>fs.mkdirSync(dir, { recursive: true })\<close>. The model takes a
  write to succeed; \<^verbatim>\<open>mkdirSync\<close> creates the directory and every missing ancestor.
\<close>

definition writeFileSync :: "filesys \<Rightarrow> path \<Rightarrow> string \<Rightarrow> filesys" where
  "writeFileSync fs p content = fs(p \<mapsto> File content)"

definition mkdirSync :: "filesys \<Rightarrow> path \<Rightarrow> filesys" where
  "mkdirSync fs dir =
     (\<lambda>p. if fs p = None \<and> p \<in> set (map (\<lambda>n. take n dir) [0..<Suc (length dir)])
          then Some Directory else fs p)"

definition OPENCODE_DIR :: string where
  "OPENCODE_DIR = ''.opencode''"

definition OMO_CONFIGS_DIR :: string where
  "OMO_CONFIGS_DIR = ''omo-configs''"

definition TARGET_CONFIG_FILE :: string where
  "TARGET_CONFIG_FILE = ''oh-my-opencode.jsonc''"

definition PROJECT_RC_FILE :: string where
  "PROJECT_RC_FILE = ''.omorc''"

text \<open>
  The directory \<open>dir\<close> holds the marker directory: the test both \<^verbatim>\<open>findProjectRoot\<close> checks
  make, \<^verbatim>\<open>fs.existsSync(opencodeDir) && fs.statSync(opencodeDir).isDirectory()\<close>.
\<close>

definition hasOpencodeDir :: "filesys \<Rightarrow> path \<Rightarrow> bool" where
  "hasOpencodeDir fs dir =
     (existsSync fs (dir @ [OPENCODE_DIR]) \<and> isDirectory fs (dir @ [OPENCODE_DIR]))"

text \<open>
  \<^verbatim>\<open>findProjectRoot(startDir?)\<close>. The argument of the model is the start directory as
  resolved (\<^verbatim>\<open>path.resolve(startDir)\<close>), or \<open>None\<close> when \<^verbatim>\<open>startDir\<close> is not given (or is the
  empty string); \<open>cwd\<close> is \<^verbatim>\<open>process.cwd()\<close>. \<open>findProjectRootLoop\<close> is the \<^verbatim>\<open>while\<close> loop
  together with the check of the root that follows it.
\<close>

function findProjectRootLoop :: "filesys \<Rightarrow> path \<Rightarrow> path option" where
  "findProjectRootLoop fs currentDir =
     (if currentDir \<noteq> []
      then (if existsSync fs (currentDir @ [OPENCODE_DIR])
               \<and> isDirectory fs (currentDir @ [OPENCODE_DIR])
            then Some currentDir
            else findProjectRootLoop fs (dirname currentDir))
      else (if existsSync fs ([] @ [OPENCODE_DIR]) \<and> isDirectory fs ([] @ [OPENCODE_DIR])
            then Some []
            else None))"
  by pat_completeness auto
termination
  by (relation "measure (\<lambda>(fs, currentDir). length currentDir)") (auto simp: dirname_def)

declare findProjectRootLoop.simps [simp del]

definition findProjectRoot :: "filesys \<Rightarrow> path \<Rightarrow> path option \<Rightarrow> path option" where
  "findProjectRoot fs cwd startDir =
     findProjectRootLoop fs (case startDir of Some d \<Rightarrow> d | None \<Rightarrow> cwd)"

definition resolveProjectRoot :: "filesys \<Rightarrow> path \<Rightarrow> path option \<Rightarrow> path" where
  "resolveProjectRoot fs cwd startDir =
     (case findProjectRoot fs cwd startDir of
        Some projectRoot \<Rightarrow> projectRoot
      | None \<Rightarrow> (case startDir of Some d \<Rightarrow> d | None \<Rightarrow> cwd))"

definition getProjectConfigsPath :: "path \<Rightarrow> path" where
  "getProjectConfigsPath projectRoot = projectRoot @ [OPENCODE_DIR, OMO_CONFIGS_DIR]"

definition getProjectTargetPath :: "path \<Rightarrow> path" where
  "getProjectTargetPath projectRoot = projectRoot @ [OPENCODE_DIR, TARGET_CONFIG_FILE]"

definition getProjectRcPath :: "path \<Rightarrow> path" where
  "getProjectRcPath projectRoot = projectRoot @ [OPENCODE_DIR, PROJECT_RC_FILE]"

text \<open>
  \<^verbatim>\<open>loadProjectRc\<close> and \<^verbatim>\<open>saveProjectRc\<close>. \<^verbatim>\<open>JSON.parse\<close> and
  \<^verbatim>\<open>JSON.stringify(rc, null, 2)\<close> are the arguments \<open>jsonParse\<close> and \<open>jsonStringify\<close>;
  \<^verbatim>\<open>JSON.parse\<close> throws on text that is not JSON. The result \<^verbatim>\<open>null\<close> is \<open>JNull\<close>; the
  \<^verbatim>\<open>try\<close>/\<^verbatim>\<open>catch\<close> covers the read and the parse.
\<close>

definition loadProjectRc :: "(string \<Rightarrow> exn + json) \<Rightarrow> filesys \<Rightarrow> path \<Rightarrow> exn + json" where
  "loadProjectRc jsonParse fs projectRoot =
     (if \<not> existsSync fs (getProjectRcPath projectRoot) then Inr JNull
      else (case readFileSync fs (getProjectRcPath projectRoot) of
              Inl e \<Rightarrow> Inr JNull
            | Inr content \<Rightarrow>
                (case jsonParse content of
                   Inl e \<Rightarrow> Inr JNull
                 | Inr rc \<Rightarrow> Inr rc)))"

definition saveProjectRc :: "(json \<Rightarrow> string) \<Rightarrow> filesys \<Rightarrow> path \<Rightarrow> json \<Rightarrow> filesys" where
  "saveProjectRc jsonStringify fs projectRoot rc =
     writeFileSync
       (if \<not> existsSync fs (dirname (getProjectRcPath projectRoot))
        then mkdirSync fs (dirname (getProjectRcPath projectRoot))
        else fs)
       (getProjectRcPath projectRoot) (jsonStringify rc)"

definition ensureProjectDirs :: "filesys \<Rightarrow> path \<Rightarrow> filesys" where
  "ensureProjectDirs fs projectRoot =
     (let fs1 = (if \<not> existsSync fs (projectRoot @ [OPENCODE_DIR])
                 then mkdirSync fs (projectRoot @ [OPENCODE_DIR]) else fs)
      in if \<not> existsSync fs1 (getProjectConfigsPath projectRoot)
         then mkdirSync fs1 (getProjectConfigsPath projectRoot) else fs1)"

subsection \<open>Global settings\<close>

text \<open>
  \<^verbatim>\<open>utils/settings.ts\<close>. \<^verbatim>\<open>GlobalSettings\<close> and \<^verbatim>\<open>DEFAULT_SETTINGS\<close> come from
  \<^verbatim>\<open>store/types\<close>; the default record is an argument of the model. A settings record is
  the map from its field names to their values, and the own enumerable properties that an
  object spread \<^verbatim>\<open>{ ...DEFAULT_SETTINGS, ...parsed }\<close> copies from a parsed JSON value are
  \<open>spreadProps\<close>: the entries of an object, the indexed elements of an array, the indexed
  characters of a string, and nothing for a number, a boolean or \<^verbatim>\<open>null\<close>.
\<close>

definition spreadProps :: "json \<Rightarrow> (string \<rightharpoonup> json)" where
  "spreadProps v =
     (case v of
        JObject kvs \<Rightarrow> map_of kvs
      | JArray xs \<Rightarrow> map_of (zip (map showNat [0..<length xs]) xs)
      | JString s \<Rightarrow> map_of (zip (map showNat [0..<length s]) (map (\<lambda>c. JString [c]) s))
      | _ \<Rightarrow> Map.empty)"

text \<open>
  \<^verbatim>\<open>process.env.XDG_CONFIG_HOME || path.join(os.homedir(), ".config")\<close>: \<open>None\<close> is an unset
  or empty variable.
\<close>

definition getSettingsPath :: "path option \<Rightarrow> path \<Rightarrow> path" where
  "getSettingsPath xdgConfigHome homedir =
     (case xdgConfigHome of Some configHome \<Rightarrow> configHome | None \<Rightarrow> homedir @ [''.config''])
     @ [''omo-switch'', ''settings.json'']"

definition loadGlobalSettings ::
  "(string \<Rightarrow> exn + json) \<Rightarrow> (string \<rightharpoonup> json) \<Rightarrow> path option \<Rightarrow> path \<Rightarrow> filesys
     \<Rightarrow> exn + (string \<rightharpoonup> json)" where
  "loadGlobalSettings jsonParse DEFAULT_SETTINGS xdgConfigHome homedir fs =
     (if \<not> existsSync fs (getSettingsPath xdgConfigHome homedir) then Inr DEFAULT_SETTINGS
      else (case readFileSync fs (getSettingsPath xdgConfigHome homedir) of
              Inl e \<Rightarrow> Inr DEFAULT_SETTINGS
            | Inr content \<Rightarrow>
                (case jsonParse content of
                   Inl e \<Rightarrow> Inr DEFAULT_SETTINGS
                 | Inr parsed \<Rightarrow> Inr (DEFAULT_SETTINGS ++ spreadProps parsed))))"

section \<open>Backup cleaner\<close>

text \<open>
  \<^verbatim>\<open>utils/backup-cleaner.ts\<close>. The function looks at one directory. An entry of it carries
  what the file system answers for it: what \<^verbatim>\<open>fs.statSync\<close> returns (it may throw; otherwise
  \<^verbatim>\<open>isDirectory()\<close> and \<^verbatim>\<open>mtimeMs\<close>, in whole milliseconds) and whether \<^verbatim>\<open>fs.unlinkSync\<close>
  throws. The directory is missing, or \<^verbatim>\<open>fs.readdirSync\<close> throws, or it lists its entries.
\<close>

record dirEntry =
  entryName :: string
  entryStat :: "exn + (bool \<times> int)"
  unlinkThrows :: bool

datatype backupsDir = Missing | Unreadable exn | Listing "dirEntry list"

definition BACKUP_RETENTION_DAYS :: int where
  "BACKUP_RETENTION_DAYS = 30"

text \<open>\<^verbatim>\<open>retentionMs\<close> and \<^verbatim>\<open>cutoffTime\<close> at the time \<open>now\<close>.\<close>

definition retentionMs :: int where
  "retentionMs = BACKUP_RETENTION_DAYS * 24 * 60 * 60 * 1000"

definition cutoffTime :: "int \<Rightarrow> int" where
  "cutoffTime now = now - retentionMs"

text \<open>
  The \<^verbatim>\<open>for\<close> loop over the listed files, from the value of \<^verbatim>\<open>deletedCount\<close> on entry. It
  returns the exception that left the loop, if one did (\<^verbatim>\<open>statSync\<close> is not inside the inner
  \<^verbatim>\<open>try\<close>), the value of \<^verbatim>\<open>deletedCount\<close>, and the entries still in the directory.
\<close>

fun sweepFiles :: "int \<Rightarrow> dirEntry list \<Rightarrow> nat \<Rightarrow> exn option \<times> nat \<times> dirEntry list" where
  "sweepFiles cutoff [] deletedCount = (None, deletedCount, [])"
| "sweepFiles cutoff (file # files) deletedCount =
     (case entryStat file of
        Inl e \<Rightarrow> (Some e, deletedCount, file # files)
      | Inr (isDir, mtime) \<Rightarrow>
          (if isDir
           then (case sweepFiles cutoff files deletedCount of
                   (ex, n, rest) \<Rightarrow> (ex, n, file # rest))
           else if mtime < cutoff
           then (if unlinkThrows file
                 then (case sweepFiles cutoff files deletedCount of
                         (ex, n, rest) \<Rightarrow> (ex, n, file # rest))
                 else sweepFiles cutoff files (deletedCount + 1))
           else (case sweepFiles cutoff files deletedCount of
                   (ex, n, rest) \<Rightarrow> (ex, n, file # rest))))"

text \<open>
  \<^verbatim>\<open>cleanOldBackups(backupsPath)\<close> at the time \<open>now\<close> (\<^verbatim>\<open>Date.now()\<close>), on the directory at
  \<^verbatim>\<open>backupsPath\<close>: the value returned, or the exception raised, and the directory afterwards.
  The outer \<^verbatim>\<open>catch\<close> swallows what \<^verbatim>\<open>readdirSync\<close> or the loop throws.
\<close>

definition cleanOldBackups :: "int \<Rightarrow> backupsDir \<Rightarrow> (exn + nat) \<times> backupsDir" where
  "cleanOldBackups now backupsDir =
     (case backupsDir of
        Missing \<Rightarrow> (Inr 0, Missing)
      | Unreadable e \<Rightarrow> (Inr 0, Unreadable e)
      | Listing files \<Rightarrow>
          (case sweepFiles (cutoffTime now) files 0 of
             (Some e, deletedCount, rest) \<Rightarrow> (Inr deletedCount, Listing rest)
           | (None, deletedCount, rest) \<Rightarrow> (Inr deletedCount, Listing rest)))"

text \<open>
  A file the sweep has to delete: \<^verbatim>\<open>statSync\<close> answers, it is not a directory, and it was
  last modified before the cutoff.
\<close>

definition expired :: "int \<Rightarrow> dirEntry \<Rightarrow> bool" where
  "expired now file =
     (case entryStat file of
        Inl e \<Rightarrow> False
      | Inr (isDir, mtime) \<Rightarrow>
          \<not> isDir \<and> mtime < cutoffTime now)"

text \<open>
  \<^verbatim>\<open>statSync\<close> answers for the entry; and a file the sweep deletes when it reaches it: an
  expired file whose \<^verbatim>\<open>unlinkSync\<close> does not throw.
\<close>

definition statSucceeds :: "dirEntry \<Rightarrow> bool" where
  "statSucceeds file = (case entryStat file of Inl e \<Rightarrow> False | Inr st \<Rightarrow> True)"

definition deletable :: "int \<Rightarrow> dirEntry \<Rightarrow> bool" where
  "deletable now file \<longleftrightarrow> expired now file \<and> \<not> unlinkThrows file"

section \<open>Stores\<close>

subsection \<open>Data model\<close>

text \<open>
  \<^verbatim>\<open>store/types.ts\<close>: \<^verbatim>\<open>Profile\<close>, \<^verbatim>\<open>StoreIndex\<close> and \<^verbatim>\<open>STORE_VERSION\<close>. A project rc record
  (\<^verbatim>\<open>ProjectRc\<close>) stays the JSON value that was parsed from the rc file, since
  \<^verbatim>\<open>loadProjectRc\<close> casts without checking.
\<close>

record profile =
  profileId :: string
  profileName :: string
  profileConfig :: json
  createdAt :: string
  updatedAt :: string

record storeIndex =
  storeVersion :: string
  activeProfileId :: "string option"
  profiles :: "profile list"

definition STORE_VERSION :: string where
  "STORE_VERSION = ''1.0.0''"

text \<open>
  The state the command handlers work on. \<open>wFiles\<close> holds what is addressed by its path:
  the project rc file, the target files, the project backups, directories. A directory
  that is listed is kept as its listing, from file name to content: the \<^verbatim>\<open>configs/\<close> and
  \<^verbatim>\<open>backups/\<close> directories of the global store and the \<^verbatim>\<open>omo-configs/\<close> directory of the
  project at hand. \<open>wIndex\<close> is the index file of the global store as parsed (\<open>None\<close>: not
  written yet) and \<open>wSchemaCache\<close> the cached schema file.
\<close>

record world =
  wFiles :: filesys
  wIndex :: "storeIndex option"
  wGlobalConfigs :: "(string \<times> string) list"
  wGlobalBackups :: "(string \<times> string) list"
  wSchemaCache :: "string option"
  wProjectConfigs :: "(string \<times> string) list"

text \<open>
  What a handler gets from outside the repository: the JSON and JSON5 parsers, the schema
  compiler of the validation library, the outcome of the schema download, the bundled
  schema, the current time as \<^verbatim>\<open>new Date().toISOString()\<close> gives it, and the process
  environment.
\<close>

datatype ajvResult = AjvValid | AjvInvalid "(string \<times> string) list"

record env =
  envJsonParse :: "string \<Rightarrow> exn + json"
  envJsonStringify :: "json \<Rightarrow> string"
  envJson5Parse :: "string \<Rightarrow> exn + json"
  envAjvCompile :: "json \<Rightarrow> exn + (json \<Rightarrow> ajvResult)"
  envDownload :: "exn + string"
  envBundledSchema :: "string option"
  envTimestamp :: string
  envCwd :: path
  envIsWindows :: bool
  envUserProfile :: "path option"
  envAppData :: "path option"
  envXdgConfigHome :: "path option"
  envHomedir :: path

subsection \<open>Strings\<close>

definition sq :: char where
  "sq = CHR 0x27"

text \<open>\<^verbatim>\<open>String.prototype.toLowerCase\<close> on the letters A to Z.\<close>

definition toLowerCase :: "string \<Rightarrow> string" where
  "toLowerCase s =
     map (\<lambda>c. case map_of (zip ''ABCDEFGHIJKLMNOPQRSTUVWXYZ'' ''abcdefghijklmnopqrstuvwxyz'') c of
                 Some l \<Rightarrow> l | None \<Rightarrow> c) s"

definition endsWith :: "string \<Rightarrow> string \<Rightarrow> bool" where
  "endsWith s suffix = (length suffix \<le> length s \<and> drop (length s - length suffix) s = suffix)"

text \<open>
  The profile id of a config file's name: the name without its \<^verbatim>\<open>.jsonc\<close> or \<^verbatim>\<open>.json\<close>
  extension; \<open>None\<close> for any other file.
\<close>

definition configId :: "string \<Rightarrow> string option" where
  "configId fileName =
     (if endsWith fileName ''.jsonc'' then Some (take (length fileName - 6) fileName)
      else if endsWith fileName ''.json'' then Some (take (length fileName - 5) fileName)
      else None)"

subsection \<open>Global store\<close>

text \<open>
  Modelled from the spec: the class \<^verbatim>\<open>StoreManager\<close> (\<^verbatim>\<open>store/index.ts\<close>) is not among the
  sources; its tests and its callers are. The operations follow section 4.2 of the
  specification and the tests of the class.

  \<^verbatim>\<open>loadIndex\<close> returns a fresh empty index when the index file is absent; \<^verbatim>\<open>saveIndex\<close>
  overwrites the index file.
\<close>

definition loadIndex :: "world \<Rightarrow> storeIndex" where
  "loadIndex w =
     (case wIndex w of
        None \<Rightarrow> \<lparr> storeVersion = STORE_VERSION, activeProfileId = None, profiles = [] \<rparr>
      | Some index \<Rightarrow> index)"

definition saveIndex :: "world \<Rightarrow> storeIndex \<Rightarrow> world" where
  "saveIndex w index = w\<lparr> wIndex := Some index \<rparr>"

text \<open>
  Modelled from the spec: \<^verbatim>\<open>StoreManager.getProfileConfigRaw\<close>, the permissive dialect
  (\<^verbatim>\<open>.jsonc\<close>) first, then the strict one, else \<^verbatim>\<open>null\<close>. The result is the file's name in
  the listing and its content.
\<close>

definition configRawIn :: "(string \<times> string) list \<Rightarrow> string \<Rightarrow> (string \<times> string) option" where
  "configRawIn listing ident =
     (case map_of listing (ident @ ''.jsonc'') of
        Some content \<Rightarrow> Some (ident @ ''.jsonc'', content)
      | None \<Rightarrow>
          (case map_of listing (ident @ ''.json'') of
             Some content \<Rightarrow> Some (ident @ ''.json'', content)
           | None \<Rightarrow> None))"

definition getProfileConfigRaw :: "world \<Rightarrow> string \<Rightarrow> (string \<times> string) option" where
  "getProfileConfigRaw w ident = configRawIn (wGlobalConfigs w) ident"

text \<open>
  Modelled from the spec: \<^verbatim>\<open>StoreManager.syncProfiles\<close>. The config files that no index
  entry refers to each get a minimal profile (id and name from the file name, both
  timestamps the time of discovery); the index is persisted only if an entry was added.
\<close>

definition orphanIds :: "world \<Rightarrow> string list" where
  "orphanIds w =
     filter (\<lambda>ident. ident \<notin> set (map profileId (profiles (loadIndex w))))
       (remdups (List.map_filter configId (map fst (wGlobalConfigs w))))"

definition syncProfiles :: "env \<Rightarrow> world \<Rightarrow> world" where
  "syncProfiles env w =
     (if orphanIds w = [] then w
      else saveIndex w
             ((loadIndex w)\<lparr> profiles := profiles (loadIndex w)
                 @ map (\<lambda>ident. \<lparr> profileId = ident, profileName = ident, profileConfig = JObject [],
                                    createdAt = envTimestamp env, updatedAt = envTimestamp env \<rparr>)
                     (orphanIds w) \<rparr>))"

text \<open>
  Modelled from the spec: \<^verbatim>\<open>StoreManager.deleteProfile\<close> removes the raw file and the index
  entry, and clears \<^verbatim>\<open>activeProfileId\<close> when the deleted profile was the active one.
\<close>

definition deleteProfile :: "world \<Rightarrow> string \<Rightarrow> world" where
  "deleteProfile w ident =
     saveIndex
       (w\<lparr> wGlobalConfigs :=
              filter (\<lambda>(fileName, content).
                        fileName \<noteq> ident @ ''.jsonc'' \<and> fileName \<noteq> ident @ ''.json'')
                (wGlobalConfigs w) \<rparr>)
       ((loadIndex w)\<lparr>
           profiles := filter (\<lambda>p. profileId p \<noteq> ident) (profiles (loadIndex w)),
           activeProfileId :=
             (if activeProfileId (loadIndex w) = Some ident then None
              else activeProfileId (loadIndex w)) \<rparr>)"

text \<open>
  Modelled from the spec: \<^verbatim>\<open>StoreManager.createBackup(sourcePath)\<close> returns \<^verbatim>\<open>null\<close> when
  the source does not exist; otherwise it copies the source into the backups directory
  under the name \<^verbatim>\<open><timestamp>__<original file name>\<close> and returns the copy's name. The
  timestamp has the form \<^verbatim>\<open>YYYY-MM-DDTHH-MM-SS-sssZ\<close> that \<^verbatim>\<open>utils/backup-cleaner.ts\<close>
  documents. Copying a directory throws.
\<close>

definition backupName :: "env \<Rightarrow> path \<Rightarrow> string" where
  "backupName env sourcePath =
     map (\<lambda>c. if c = CHR '':'' \<or> c = CHR ''.'' then CHR ''-'' else c) (envTimestamp env)
     @ ''__'' @ last sourcePath"

definition createBackup :: "env \<Rightarrow> world \<Rightarrow> path \<Rightarrow> exn + (string option \<times> world)" where
  "createBackup env w sourcePath =
     (case wFiles w sourcePath of
        None \<Rightarrow> Inr (None, w)
      | Some Directory \<Rightarrow> Inl (Exn ''EISDIR'')
      | Some (File content) \<Rightarrow>
          Inr (Some (backupName env sourcePath),
               w\<lparr> wGlobalBackups := wGlobalBackups w @ [(backupName env sourcePath, content)] \<rparr>))"

subsection \<open>Project store\<close>

text \<open>
  Modelled from the spec: the class \<^verbatim>\<open>ProjectStoreManager\<close> (\<^verbatim>\<open>store/project-store.ts\<close>) is
  not among the sources; its tests and its callers are. It takes its paths from the
  scope resolver, \<^verbatim>\<open>loadRc\<close> and \<^verbatim>\<open>saveRc\<close> are \<^verbatim>\<open>loadProjectRc\<close> and \<^verbatim>\<open>saveProjectRc\<close> at
  the project root, and a profile is the file \<^verbatim>\<open><id>.jsonc\<close> or \<^verbatim>\<open><id>.json\<close> of the configs
  directory, the first preferred.
\<close>

definition projectConfigRaw :: "world \<Rightarrow> string \<Rightarrow> (string \<times> string) option" where
  "projectConfigRaw w ident = configRawIn (wProjectConfigs w) ident"

text \<open>
  Modelled from the spec: \<^verbatim>\<open>ProjectStoreManager.configExists\<close> and \<^verbatim>\<open>deleteProfileConfig\<close>
  (the latter removes the raw file that the lookup resolves to, if there is one).
\<close>

definition configExists :: "world \<Rightarrow> string \<Rightarrow> bool" where
  "configExists w ident = (projectConfigRaw w ident \<noteq> None)"

definition deleteProfileConfig :: "world \<Rightarrow> string \<Rightarrow> world" where
  "deleteProfileConfig w ident =
     (case projectConfigRaw w ident of
        None \<Rightarrow> w
      | Some (fileName, content) \<Rightarrow>
          w\<lparr> wProjectConfigs := filter (\<lambda>(name, c). name \<noteq> fileName) (wProjectConfigs w) \<rparr>)"

text \<open>
  Modelled from the spec: \<^verbatim>\<open>ProjectStoreManager.listProfiles\<close>, the ids of the config files
  without duplicates across the two dialects.
\<close>

definition listProfiles :: "world \<Rightarrow> string list" where
  "listProfiles w = remdups (List.map_filter configId (map fst (wProjectConfigs w)))"

text \<open>
  Modelled from the spec: \<^verbatim>\<open>ProjectStoreManager.loadRc\<close> and \<^verbatim>\<open>saveRc\<close> delegate to the scope
  resolver, and the backups directory of a project is \<^verbatim>\<open>backups\<close> under the marker
  directory.
\<close>

definition loadRc :: "env \<Rightarrow> world \<Rightarrow> path \<Rightarrow> exn + json" where
  "loadRc env w projectRoot = loadProjectRc (envJsonParse env) (wFiles w) projectRoot"

definition saveRc :: "env \<Rightarrow> world \<Rightarrow> path \<Rightarrow> json \<Rightarrow> world" where
  "saveRc env w projectRoot rc =
     w\<lparr> wFiles := saveProjectRc (envJsonStringify env) (wFiles w) projectRoot rc \<rparr>"

definition projectBackupsPath :: "path \<Rightarrow> path" where
  "projectBackupsPath projectRoot = projectRoot @ [OPENCODE_DIR, ''backups'']"

text \<open>
  Modelled from the spec: \<^verbatim>\<open>ProjectStoreManager.ensureDirectories\<close> ensures the project
  directories and the backups directory, and that the ignore file of the marker directory
  names the backups directory.
\<close>

fun containsText :: "string \<Rightarrow> string \<Rightarrow> bool" where
  "containsText [] needle = (needle = [])"
| "containsText (c # cs) needle =
     (take (length needle) (c # cs) = needle \<or> containsText cs needle)"

definition ensureDirectories :: "world \<Rightarrow> path \<Rightarrow> world" where
  "ensureDirectories w projectRoot =
     (let fs1 = ensureProjectDirs (wFiles w) projectRoot;
          fs2 = (if \<not> existsSync fs1 (projectBackupsPath projectRoot)
                 then mkdirSync fs1 (projectBackupsPath projectRoot) else fs1);
          ignorePath = projectRoot @ [OPENCODE_DIR, ''.gitignore'']
      in w\<lparr> wFiles :=
            (case fs2 ignorePath of
               Some (File content) \<Rightarrow>
                 if containsText content ''backups/'' then fs2
                 else writeFileSync fs2 ignorePath (content @ [nl] @ ''backups/'' @ [nl])
             | Some Directory \<Rightarrow> fs2
             | None \<Rightarrow> writeFileSync fs2 ignorePath (''backups/'' @ [nl])) \<rparr>)"

text \<open>
  Modelled from the spec: \<^verbatim>\<open>ProjectStoreManager.createBackup(sourcePath)\<close>, as the global
  one, into the backups directory of the project.
\<close>

definition createProjectBackup ::
  "env \<Rightarrow> world \<Rightarrow> path \<Rightarrow> path \<Rightarrow> exn + (string option \<times> world)" where
  "createProjectBackup env w projectRoot sourcePath =
     (case wFiles w sourcePath of
        None \<Rightarrow> Inr (None, w)
      | Some Directory \<Rightarrow> Inl (Exn ''EISDIR'')
      | Some (File content) \<Rightarrow>
          Inr (Some (backupName env sourcePath),
               w\<lparr> wFiles :=
                    writeFileSync
                      (if \<not> existsSync (wFiles w) (projectBackupsPath projectRoot)
                       then mkdirSync (wFiles w) (projectBackupsPath projectRoot)
                       else wFiles w)
                      (projectBackupsPath projectRoot @ [backupName env sourcePath])
                      content \<rparr>))"

section \<open>Command handlers\<close>

text \<open>
  How a handler ends: \<^verbatim>\<open>spinner.fail(message)\<close>, lines on the console and
  \<^verbatim>\<open>process.exit(1)\<close>; or the user declined the confirmation; or \<^verbatim>\<open>spinner.succeed(message)\<close>
  and lines on the console. Each carries the state the handler leaves. Colours are left
  out of the console lines. A handler that throws returns \<open>Inl\<close>; the command around it
  catches that and fails with the error's message.
\<close>

datatype outcome =
    Failed string "string list" world
  | Cancelled world
  | Succeeded string "string list" world

text \<open>
  JavaScript's truthiness of a parsed JSON value, and the read of a named property
  (a name that is neither an index nor a built-in property of arrays and strings).
\<close>

fun truthy :: "json \<Rightarrow> bool" where
  "truthy JNull = False"
| "truthy (JBool b) = b"
| "truthy (JNumber n) = (n \<noteq> 0)"
| "truthy (JString s) = (s \<noteq> [])"
| "truthy v = True"

fun getProp :: "json \<Rightarrow> string \<Rightarrow> json option" where
  "getProp (JObject kvs) name = map_of kvs name"
| "getProp v name = None"

subsection \<open>\<^verbatim>\<open>rm\<close>\<close>

text \<open>
  The three lines that follow \<^verbatim>\<open>projectStore.deleteProfileConfig(profileId)\<close> in
  \<^verbatim>\<open>handleOmoRm\<close>, in both places:
  \<^verbatim>\<open>const rc = projectStore.loadRc();
  if (rc && rc.activeProfileId === profileId) { projectStore.saveRc({ activeProfileId: null }); }\<close>
\<close>

definition resetActiveRc :: "env \<Rightarrow> world \<Rightarrow> path \<Rightarrow> string \<Rightarrow> exn + world" where
  "resetActiveRc env w projectRoot ident =
     (case loadRc env w projectRoot of
        Inl e \<Rightarrow> Inl e
      | Inr rc \<Rightarrow>
          if truthy rc \<and> getProp rc ''activeProfileId'' = Some (JString ident)
          then Inr (saveRc env w projectRoot (JObject [(''activeProfileId'', JNull)]))
          else Inr w)"

text \<open>
  \<^verbatim>\<open>handleOmoRm(profileId, options, spinner, projectRoot)\<close>; \<open>scope\<close> and \<open>force\<close> are the
  options, \<open>confirmed\<close> is the answer to the confirmation prompt, asked without
  \<^verbatim>\<open>--force\<close>.
\<close>

definition deletedMessage :: "string \<Rightarrow> string \<Rightarrow> string" where
  "deletedMessage ident scopeLabel =
     ''Deleted profile '' @ [sq] @ ident @ [sq] @ '' '' @ scopeLabel"

definition handleOmoRm ::
  "env \<Rightarrow> bool \<Rightarrow> string \<Rightarrow> string option \<Rightarrow> bool \<Rightarrow> path option \<Rightarrow> world \<Rightarrow> exn + outcome" where
  "handleOmoRm env confirmed ident scope force projectRoot w =
     (if scope \<noteq> None \<and> scope \<noteq> Some [] \<and> scope \<noteq> Some ''user'' \<and> scope \<noteq> Some ''project''
      then Inr (Failed (''Invalid scope: '' @ (case scope of Some s \<Rightarrow> s | None \<Rightarrow> []) @ ''. Use '' @ [sq] @ ''user'' @ [sq]
                         @ '' or '' @ [sq] @ ''project'' @ [sq] @ ''.'') [] w)
      else if scope = Some ''user''
      then (case find (\<lambda>p. profileId p = ident) (profiles (loadIndex w)) of
              None \<Rightarrow> Inr (Failed (''Profile '' @ [sq] @ ident @ [sq] @ '' not found in global store.'') [] w)
            | Some p \<Rightarrow>
                if \<not> force \<and> \<not> confirmed then Inr (Cancelled w)
                else Inr (Succeeded (deletedMessage ident ''[user]'') [] (deleteProfile w ident)))
      else if scope = Some ''project''
      then (case projectRoot of
              None \<Rightarrow> Inr (Failed ''No .opencode/ directory found in parent directories.''
                             [''Run in a project directory or use --scope user.''] w)
            | Some root \<Rightarrow>
                if \<not> configExists w ident
                then Inr (Failed (''Profile '' @ [sq] @ ident @ [sq] @ '' not found in project.'') [] w)
                else if \<not> force \<and> \<not> confirmed then Inr (Cancelled w)
                else (case resetActiveRc env (deleteProfileConfig w ident) root ident of
                        Inl e \<Rightarrow> Inl e
                      | Inr w' \<Rightarrow> Inr (Succeeded (deletedMessage ident ''[project]'') [] w')))
      else (case (case projectRoot of
                    Some root \<Rightarrow> if configExists w ident then Some root else None
                  | None \<Rightarrow> None) of
              Some root \<Rightarrow>
                if \<not> force \<and> \<not> confirmed then Inr (Cancelled w)
                else (case resetActiveRc env (deleteProfileConfig w ident) root ident of
                        Inl e \<Rightarrow> Inl e
                      | Inr w' \<Rightarrow> Inr (Succeeded (deletedMessage ident ''[project]'') [] w'))
            | None \<Rightarrow>
                (case find (\<lambda>p. profileId p = ident) (profiles (loadIndex w)) of
                   Some p \<Rightarrow>
                     if \<not> force \<and> \<not> confirmed then Inr (Cancelled w)
                     else Inr (Succeeded (deletedMessage ident ''[user]'') [] (deleteProfile w ident))
                 | None \<Rightarrow> Inr (Failed (''Profile '' @ [sq] @ ident @ [sq] @ '' not found.'') [] w))))"

subsection \<open>\<^verbatim>\<open>apply\<close>\<close>

text \<open>
  \<^verbatim>\<open>utils/config-path.ts\<close>: \<^verbatim>\<open>findExistingConfigPath\<close>, \<^verbatim>\<open>getConfigTargetDir\<close> and
  \<^verbatim>\<open>ensureConfigDir\<close>.
\<close>

definition findExistingConfigPath :: "env \<Rightarrow> filesys \<Rightarrow> path option" where
  "findExistingConfigPath env fs =
     (if envIsWindows env
      then (let userProfile = (case envUserProfile env of Some p \<Rightarrow> p | None \<Rightarrow> envHomedir env);
                appData = (case envAppData env of Some p \<Rightarrow> p
                           | None \<Rightarrow> userProfile @ [''AppData'', ''Roaming'']);
                preferredDir = userProfile @ [''.config'', ''opencode''];
                fallbackDir = appData @ [''opencode'']
            in if existsSync fs (preferredDir @ [''oh-my-opencode.jsonc''])
               then Some (preferredDir @ [''oh-my-opencode.jsonc''])
               else if existsSync fs (preferredDir @ [''oh-my-opencode.json''])
               then Some (preferredDir @ [''oh-my-opencode.json''])
               else if existsSync fs (fallbackDir @ [''oh-my-opencode.jsonc''])
               then Some (fallbackDir @ [''oh-my-opencode.jsonc''])
               else if existsSync fs (fallbackDir @ [''oh-my-opencode.json''])
               then Some (fallbackDir @ [''oh-my-opencode.json''])
               else None)
      else (let configHome = (case envXdgConfigHome env of Some p \<Rightarrow> p
                              | None \<Rightarrow> envHomedir env @ [''.config'']);
                configDir = configHome @ [''opencode'']
            in if existsSync fs (configDir @ [''oh-my-opencode.jsonc''])
               then Some (configDir @ [''oh-my-opencode.jsonc''])
               else if existsSync fs (configDir @ [''oh-my-opencode.json''])
               then Some (configDir @ [''oh-my-opencode.json''])
               else None))"

definition getConfigTargetDir :: "env \<Rightarrow> filesys \<Rightarrow> path" where
  "getConfigTargetDir env fs =
     (if envIsWindows env
      then (case findExistingConfigPath env fs of
              Some existingConfig \<Rightarrow> dirname existingConfig
            | None \<Rightarrow>
                (case envUserProfile env of Some p \<Rightarrow> p | None \<Rightarrow> envHomedir env)
                @ [''.config'', ''opencode''])
      else (case envXdgConfigHome env of Some p \<Rightarrow> p | None \<Rightarrow> envHomedir env @ [''.config''])
           @ [''opencode''])"

definition ensureConfigDir :: "filesys \<Rightarrow> path \<Rightarrow> filesys" where
  "ensureConfigDir fs configPath =
     (if \<not> existsSync fs (dirname configPath) then mkdirSync fs (dirname configPath) else fs)"

text \<open>
  \<^verbatim>\<open>ensureSchemaAvailable(store)\<close>: the cached schema if there is one, else the downloaded
  one, else the bundled one (an empty bundled file counts as none), else an error. The
  \<^verbatim>\<open>meta.json\<close> file written beside the cached schema is not part of the state.
\<close>

definition ensureSchemaAvailable :: "env \<Rightarrow> world \<Rightarrow> exn + world" where
  "ensureSchemaAvailable env w =
     (case wSchemaCache w of
        Some cached \<Rightarrow> Inr w
      | None \<Rightarrow>
          (case envDownload env of
             Inr content \<Rightarrow> Inr (w\<lparr> wSchemaCache := Some content \<rparr>)
           | Inl e \<Rightarrow>
               (case envBundledSchema env of
                  Some bundled \<Rightarrow>
                    if bundled \<noteq> [] then Inr (w\<lparr> wSchemaCache := Some bundled \<rparr>)
                    else Inl (Exn ''Failed to download or find bundled schema'')
                | None \<Rightarrow> Inl (Exn ''Failed to download or find bundled schema''))))"

text \<open>
  \<^verbatim>\<open>utils/validator.ts\<close>. \<^verbatim>\<open>new Validator(schemaPath)\<close> compiles the schema file when it
  exists (\<^verbatim>\<open>JSON.parse\<close> and the compiler may throw); the compiled schema is \<open>None\<close>
  otherwise. \<^verbatim>\<open>validate(data)\<close> returns \<^verbatim>\<open>{ valid, errors }\<close>; an error of the library is
  its \<^verbatim>\<open>instancePath\<close> and its \<^verbatim>\<open>message\<close>.
\<close>

definition newValidator :: "env \<Rightarrow> world \<Rightarrow> exn + (json \<Rightarrow> ajvResult) option" where
  "newValidator env w =
     (case wSchemaCache w of
        None \<Rightarrow> Inr None
      | Some text \<Rightarrow>
          (case envJsonParse env text of
             Inl e \<Rightarrow> Inl e
           | Inr schema \<Rightarrow>
               (case envAjvCompile env schema of
                  Inl e \<Rightarrow> Inl e
                | Inr compiled \<Rightarrow> Inr (Some compiled))))"

definition validate :: "(json \<Rightarrow> ajvResult) option \<Rightarrow> json \<Rightarrow> bool \<times> string list" where
  "validate compiledSchema data =
     (case compiledSchema of
        None \<Rightarrow> (False, [''Schema not found or not loaded''])
      | Some compiled \<Rightarrow>
          (case compiled data of
             AjvValid \<Rightarrow> (True, [])
           | AjvInvalid errs \<Rightarrow>
               (False,
                map (\<lambda>(instancePath, message).
                       (if instancePath \<noteq> [] then instancePath else ''(root)'') @ '': '' @ message)
                  errs)))"

text \<open>
  \<^verbatim>\<open>handleOmoApply(identifier, options, spinner)\<close> up to and including
  \<^verbatim>\<open>const validation = validator.validate(config)\<close>. What it has in hand at that point:
\<close>

record applyContext =
  ctxWorld :: world
  ctxIndex :: storeIndex
  ctxProjectRoot :: "path option"
  ctxProfile :: profile
  ctxConfigRaw :: "string \<times> string"
  ctxProfileSource :: string
  ctxValidation :: "bool \<times> string list"

text \<open>
  The profile and the raw config the handler settles on, in the state \<open>w\<close> after the
  synchronisation and the directory setup: the profile of the global index with the
  identifier as id or (ignoring case) as name; for project scope the project profile with
  the identifier (ignoring case) as id, with a temporary profile record when the index has
  none; else the raw config of the global profile.
\<close>

definition findGlobalProfile :: "storeIndex \<Rightarrow> string \<Rightarrow> profile option" where
  "findGlobalProfile globalIndex identifier =
     find (\<lambda>p. profileId p = identifier \<or> toLowerCase (profileName p) = toLowerCase identifier)
       (profiles globalIndex)"

definition findProjectProfileId :: "world \<Rightarrow> string \<Rightarrow> string option" where
  "findProjectProfileId w identifier =
     find (\<lambda>ident. ident = identifier \<or> toLowerCase ident = toLowerCase identifier)
       (listProfiles w)"

definition selectProfile ::
  "env \<Rightarrow> world \<Rightarrow> storeIndex \<Rightarrow> bool \<Rightarrow> string
     \<Rightarrow> profile option \<times> (string \<times> string) option \<times> string" where
  "selectProfile env w globalIndex projectScope identifier =
     (let profile0 = findGlobalProfile globalIndex identifier;
          (profile1, configRaw1, source1) =
            (if projectScope
             then (case findProjectProfileId w identifier of
                     Some projectProfileId \<Rightarrow>
                       ((case profile0 of
                           None \<Rightarrow> Some \<lparr> profileId = projectProfileId, profileName = projectProfileId,
                                          profileConfig = JObject [],
                                          createdAt = envTimestamp env, updatedAt = envTimestamp env \<rparr>
                         | Some p \<Rightarrow> Some p),
                        projectConfigRaw w projectProfileId, ''project'')
                   | None \<Rightarrow> (profile0, None, ''user''))
             else (profile0, None, ''user''))
      in (case (configRaw1, profile1) of
            (None, Some p) \<Rightarrow> (profile1, getProfileConfigRaw w (profileId p), ''user'')
          | _ \<Rightarrow> (profile1, configRaw1, source1)))"

definition reachValidation ::
  "env \<Rightarrow> string \<Rightarrow> string \<Rightarrow> world \<Rightarrow> (exn + outcome) + applyContext" where
  "reachValidation env identifier scope w =
     (if scope \<noteq> ''user'' \<and> scope \<noteq> ''project''
      then Inl (Inr (Failed (''Invalid scope: '' @ scope @ ''. Use '' @ [sq] @ ''user'' @ [sq]
                              @ '' or '' @ [sq] @ ''project'' @ [sq] @ ''.'') [] w))
      else
        (let w1 = syncProfiles env w;
             globalIndex = loadIndex w1;
             projectRoot = (if scope = ''project''
                            then Some (resolveProjectRoot (wFiles w1) (envCwd env) None) else None);
             w2 = (case projectRoot of Some root \<Rightarrow> ensureDirectories w1 root | None \<Rightarrow> w1)
         in (case selectProfile env w2 globalIndex (scope = ''project'') identifier of
               (None, configRaw, profileSource) \<Rightarrow>
                 Inl (Inr (Failed (''Profile not found: '' @ identifier) [] w2))
             | (Some profile, None, profileSource) \<Rightarrow>
                 Inl (Inr (Failed ''Profile config file not found''
                            [''Profile '' @ [sq] @ identifier @ [sq]
                               @ '' exists in index but config file is missing.'',
                             ''Source: '' @ profileSource] w2))
             | (Some profile, Some configRaw, profileSource) \<Rightarrow>
                 (case envJson5Parse env (snd configRaw) of
                    Inl (Exn message) \<Rightarrow>
                      Inl (Inr (Failed ''Failed to parse config as JSON/JSONC''
                                 [''Error: '' @ message] w2))
                  | Inr config \<Rightarrow>
                      (case ensureSchemaAvailable env w2 of
                         Inl e \<Rightarrow> Inl (Inl e)
                       | Inr w3 \<Rightarrow>
                           (case newValidator env w3 of
                              Inl e \<Rightarrow> Inl (Inl e)
                            | Inr validator \<Rightarrow>
                                Inr \<lparr> ctxWorld = w3, ctxIndex = globalIndex,
                                      ctxProjectRoot = projectRoot, ctxProfile = profile,
                                      ctxConfigRaw = configRaw, ctxProfileSource = profileSource,
                                      ctxValidation = validate validator config \<rparr>))))))"

text \<open>
  The rest of \<^verbatim>\<open>handleOmoApply\<close> for a valid configuration: the backup of the existing
  target, the write of the target with its header line, and the activation. In the console
  lines a path is printed with \<^verbatim>\<open>/\<close> between its components and a backup by its file name.
\<close>

definition targetContent :: "applyContext \<Rightarrow> string" where
  "targetContent ctx =
     ''// Profile Name: '' @ profileName (ctxProfile ctx) @ '', edited by omo-switch''
     @ [nl] @ snd (ctxConfigRaw ctx)"

definition succeededLines :: "applyContext \<Rightarrow> path \<Rightarrow> string option \<Rightarrow> string list" where
  "succeededLines ctx targetPath backupPath =
     [''  Source: '' @ ctxProfileSource ctx, ''  Target: '' @ join ''/'' targetPath]
     @ (case backupPath of Some b \<Rightarrow> [''  Backup: '' @ b] | None \<Rightarrow> [])"

definition appliedMessage :: "applyContext \<Rightarrow> string \<Rightarrow> string" where
  "appliedMessage ctx scope =
     ''Applied profile '' @ [sq] @ profileName (ctxProfile ctx) @ [sq]
     @ '' ('' @ profileId (ctxProfile ctx) @ '') ['' @ scope @ '']''"

definition applyWrite :: "env \<Rightarrow> string \<Rightarrow> applyContext \<Rightarrow> exn + outcome" where
  "applyWrite env scope ctx =
     (case ctxProjectRoot ctx of
        Some root \<Rightarrow>
          (let targetPath = getProjectTargetPath root;
               w1 = (ctxWorld ctx)\<lparr> wFiles := ensureConfigDir (wFiles (ctxWorld ctx)) targetPath \<rparr>
           in (case createProjectBackup env w1 root targetPath of
                 Inl e \<Rightarrow> Inl e
               | Inr (backupPath, w2) \<Rightarrow>
                   Inr (Succeeded (appliedMessage ctx scope)
                          (succeededLines ctx targetPath backupPath)
                          (saveRc env
                             (w2\<lparr> wFiles := writeFileSync (wFiles w2) targetPath (targetContent ctx) \<rparr>)
                             root
                             (JObject [(''activeProfileId'', JString (profileId (ctxProfile ctx)))])))))
      | None \<Rightarrow>
          (let targetDir = getConfigTargetDir env (wFiles (ctxWorld ctx));
               targetPath = targetDir @ [''oh-my-opencode.jsonc''];
               w1 = (ctxWorld ctx)\<lparr> wFiles := ensureConfigDir (wFiles (ctxWorld ctx)) targetPath \<rparr>
           in (case (if existsSync (wFiles w1) (targetDir @ [''oh-my-opencode.jsonc''])
                     then createBackup env w1 (targetDir @ [''oh-my-opencode.jsonc''])
                     else if existsSync (wFiles w1) (targetDir @ [''oh-my-opencode.json''])
                     then createBackup env w1 (targetDir @ [''oh-my-opencode.json''])
                     else Inr (None, w1)) of
                 Inl e \<Rightarrow> Inl e
               | Inr (backupPath, w2) \<Rightarrow>
                   Inr (Succeeded (appliedMessage ctx scope)
                          (succeededLines ctx targetPath backupPath)
                          (saveIndex
                             (w2\<lparr> wFiles := writeFileSync (wFiles w2) targetPath (targetContent ctx) \<rparr>)
                             ((ctxIndex ctx)\<lparr> activeProfileId := Some (profileId (ctxProfile ctx)) \<rparr>))))))"

text \<open>\<^verbatim>\<open>handleOmoApply\<close>: the validation result decides between the abort and the write.\<close>

definition handleOmoApply :: "env \<Rightarrow> string \<Rightarrow> string \<Rightarrow> world \<Rightarrow> exn + outcome" where
  "handleOmoApply env identifier scope w =
     (case reachValidation env identifier scope w of
        Inl early \<Rightarrow> early
      | Inr ctx \<Rightarrow>
          if \<not> fst (ctxValidation ctx)
          then Inr (Failed ''Configuration validation failed''
                      (''Validation errors:'' # map (\<lambda>err. ''  - '' @ err) (snd (ctxValidation ctx)))
                      (ctxWorld ctx))
          else applyWrite env scope ctx)"

section \<open>A sample environment and state\<close>

text \<open>
  An environment and a state to run the handlers on. The JSON parser accepts the two rc
  records below as \<open>stringify\<close> prints them and the schema text \<^verbatim>\<open>{}\<close>; the schema compiler
  accepts the empty document only; the download fails and a schema is bundled. The state
  holds a project at \<^verbatim>\<open>/proj\<close> whose rc record names \<^verbatim>\<open>work\<close> as active, a global index
  with the one profile \<^verbatim>\<open>work\<close>, active, and in both configs directories a valid \<^verbatim>\<open>work\<close>
  and an invalid \<^verbatim>\<open>bad\<close>; the global \<^verbatim>\<open>bad.json\<close> is not in the index.
\<close>

definition rcWork :: json where
  "rcWork = JObject [(''activeProfileId'', JString ''work'')]"

definition rcNone :: json where
  "rcNone = JObject [(''activeProfileId'', JNull)]"

definition sampleEnv :: env where
  "sampleEnv =
     \<lparr> envJsonParse = (\<lambda>s. if s = stringify rcWork then Inr rcWork
                            else if s = stringify rcNone then Inr rcNone
                            else if s = ''{}'' then Inr (JObject [])
                            else Inl (Exn ''Unexpected token'')),
       envJsonStringify = stringify,
       envJson5Parse = (\<lambda>s. if s = ''{}'' then Inr (JObject [])
                             else if s = ''{ bad: true }'' then Inr (JObject [(''bad'', JBool True)])
                             else Inl (Exn ''JSON5: invalid character'')),
       envAjvCompile = (\<lambda>schema. Inr (\<lambda>data. if data = JObject [] then AjvValid
                                              else AjvInvalid [(''/bad'', ''must be string''),
                                                               ('''', ''must match schema'')])),
       envDownload = Inl (Exn ''getaddrinfo ENOTFOUND''),
       envBundledSchema = Some ''{}'',
       envTimestamp = ''2026-01-22T10:00:00.000Z'',
       envCwd = [''proj'', ''src''],
       envIsWindows = False,
       envUserProfile = None,
       envAppData = None,
       envXdgConfigHome = None,
       envHomedir = [''home'', ''u''] \<rparr>"

definition sampleWorld :: world where
  "sampleWorld =
     \<lparr> wFiles = Map.empty
         ([''proj'', ''.opencode''] \<mapsto> Directory,
          [''proj'', ''.opencode'', ''.omorc''] \<mapsto> File (stringify rcWork),
          [''home'', ''u'', ''.config'', ''opencode'', ''oh-my-opencode.jsonc''] \<mapsto> File ''// old''),
       wIndex = Some \<lparr> storeVersion = STORE_VERSION, activeProfileId = Some ''work'',
                       profiles = [\<lparr> profileId = ''work'', profileName = ''Work'',
                                     profileConfig = JObject [],
                                     createdAt = ''2026-01-01T00:00:00.000Z'',
                                     updatedAt = ''2026-01-01T00:00:00.000Z'' \<rparr>] \<rparr>,
       wGlobalConfigs = [(''work.json'', ''{}''), (''bad.json'', ''{ bad: true }'')],
       wGlobalBackups = [],
       wSchemaCache = None,
       wProjectConfigs = [(''work.jsonc'', ''{}''), (''bad.jsonc'', ''{ bad: true }'')] \<rparr>"

section \<open>Properties of the deep merge\<close>

subsection \<open>Documents without keys of the prototype\<close>

lemma assignProperties_plain:
  "list_all (\<lambda>(key, v). key \<noteq> ''__proto__'') kvs
   \<Longrightarrow> assignProperties (map (\<lambda>(key, v). (key, Some (f key v))) kvs)
       = Some (map (\<lambda>(key, v). (key, f key v)) kvs)"
  by (induction kvs) auto

lemma those_map_Some:
  "(\<And>x. x \<in> set xs \<Longrightarrow> f x = Some x) \<Longrightarrow> those (map f xs) = Some xs"
  by (induction xs) auto

lemma protoFree_entry:
  "protoFree (VObject kvs) \<Longrightarrow> (key, v) \<in> set kvs \<Longrightarrow> \<not> inObjectPrototype key \<and> protoFree v"
  by (auto simp: list_all_iff)

lemma protoFree_map_of:
  "protoFree (VObject kvs) \<Longrightarrow> map_of kvs key = Some v \<Longrightarrow> \<not> inObjectPrototype key \<and> protoFree v"
  by (blast dest: map_of_SomeD protoFree_entry)

lemma protoFree_keys:
  "protoFree (VObject kvs) \<Longrightarrow> list_all (\<lambda>(key, v). key \<noteq> ''__proto__'') kvs"
  by (auto simp: list_all_iff inObjectPrototype_def)

lemma deepClone_protoFree:
  "protoFree v \<Longrightarrow> deepClone v = Some v"
proof (induction v rule: deepClone.induct)
  case (1 xs)
  then have "those (map deepClone xs) = Some xs"
    by (intro those_map_Some) (auto simp: list_all_iff)
  then show ?case by simp
next
  case (2 kvs)
  have eq: "map (\<lambda>(key, v). (key, deepClone v)) kvs = map (\<lambda>(key, v). (key, Some v)) kvs"
    by (rule map_cong) (use 2 in \<open>auto simp: list_all_iff\<close>)
  have "assignProperties (map (\<lambda>(key, v). (key, Some v)) kvs) = Some kvs"
    using assignProperties_plain [OF protoFree_keys [OF "2.prems"], of "\<lambda>key v. v"]
    by (simp add: split_def)
  then show ?case by (simp only: deepClone.simps eq option.map)
qed simp_all

lemma getProperty_protoFree:
  "\<not> inObjectPrototype key \<Longrightarrow>
   getProperty obj key = (case map_of obj key of Some v \<Rightarrow> Value v | None \<Rightarrow> Undefined)"
  by (simp add: getProperty_def inObjectPrototype_def split: option.splits)

lemma hasProperty_protoFree:
  "\<not> inObjectPrototype key \<Longrightarrow> hasProperty obj key \<longleftrightarrow> map_of obj key \<noteq> None"
  by (simp add: hasProperty_def)

lemma deepMerge_protoFree:
  "protoFree (VObject a) \<Longrightarrow> protoFree (VObject b) \<Longrightarrow> deepMerge a b = Some (ownMerge a b)"
proof (induction a b rule: ownMerge.induct)
  case (1 a b)
  let ?val = "\<lambda>key baseVal. case map_of b key of
                None \<Rightarrow> baseVal
              | Some overrideVal \<Rightarrow>
                  (case (baseVal, overrideVal) of
                     (VObject x, VObject y) \<Rightarrow> VObject (ownMerge x y)
                   | _ \<Rightarrow> overrideVal)"
  let ?assigned = "\<lambda>key baseVal. case getProperty b key of
                  Undefined \<Rightarrow> deepClone baseVal
                | Value overrideVal \<Rightarrow>
                    (case (baseVal, overrideVal) of
                       (VObject x, VObject y) \<Rightarrow> map_option VObject (deepMerge x y)
                     | _ \<Rightarrow> deepClone overrideVal)
                | ObjectPrototype \<Rightarrow> None"
  have entry: "?assigned key baseVal = Some (?val key baseVal)"
    if mem: "(key, baseVal) \<in> set a" for key baseVal
  proof -
    from protoFree_entry [OF "1.prems"(1) mem]
    have k: "\<not> inObjectPrototype key" and bv: "protoFree baseVal" by simp_all
    show ?thesis
    proof (cases "map_of b key")
      case None
      with k bv show ?thesis
        by (simp add: getProperty_protoFree deepClone_protoFree)
    next
      case (Some overrideVal)
      from protoFree_map_of [OF "1.prems"(2) Some] have ov: "protoFree overrideVal" by simp
      show ?thesis
      proof (cases "\<exists>x y. baseVal = VObject x \<and> overrideVal = VObject y")
        case True
        then obtain x y where xy: "baseVal = VObject x" "overrideVal = VObject y" by blast
        from "1.IH" [OF mem refl Some refl xy(1) xy(2)] bv ov xy
        have "deepMerge x y = Some (ownMerge x y)" by simp
        with k Some xy show ?thesis by (simp add: getProperty_protoFree)
      next
        case False
        have "deepClone overrideVal = Some overrideVal"
          using ov by (rule deepClone_protoFree)
        with k Some False show ?thesis
          by (cases baseVal; cases overrideVal)
            (simp_all add: getProperty_protoFree del: deepClone.simps)
      qed
    qed
  qed
  have first: "map (\<lambda>(key, baseVal). (key, ?assigned key baseVal)) a
        = map (\<lambda>(key, baseVal). (key, Some (?val key baseVal))) a"
    by (rule map_cong [OF refl]) (use entry in \<open>auto simp del: deepClone.simps\<close>)
  have filt: "filter (\<lambda>(key, v). \<not> hasProperty a key) b
        = filter (\<lambda>(key, v). map_of a key = None) b"
    by (rule filter_cong [OF refl])
      (use protoFree_entry [OF "1.prems"(2)] in \<open>auto simp: hasProperty_protoFree\<close>)
  have second: "map (\<lambda>(key, v). (key, deepClone v)) (filter (\<lambda>(key, v). map_of a key = None) b)
        = map (\<lambda>(key, v). (key, Some v)) (filter (\<lambda>(key, v). map_of a key = None) b)"
    by (rule map_cong [OF refl])
      (use protoFree_entry [OF "1.prems"(2)] in
        \<open>auto simp: deepClone_protoFree simp del: deepClone.simps\<close>)
  let ?entries = "map (\<lambda>(key, baseVal). (key, ?val key baseVal)) a
                  @ filter (\<lambda>(key, v). map_of a key = None) b"
  have keys: "list_all (\<lambda>(key, v). key \<noteq> ''__proto__'') ?entries"
    using protoFree_keys [OF "1.prems"(1)] protoFree_keys [OF "1.prems"(2)]
    by (auto simp: list_all_iff)
  have "deepMerge a b
        = assignProperties
            (map (\<lambda>(key, baseVal). (key, ?assigned key baseVal)) a
             @ map (\<lambda>(key, v). (key, deepClone v)) (filter (\<lambda>(key, v). \<not> hasProperty a key) b))"
    by (rule deepMerge.simps)
  also have "\<dots> = assignProperties (map (\<lambda>(key, v). (key, Some v)) ?entries)"
    by (simp only: first filt second) (simp add: o_def split_def)
  also have "\<dots> = Some ?entries"
    using assignProperties_plain [OF keys, of "\<lambda>key v. v"] by (simp add: split_def)
  also have "?entries = ownMerge a b"
    by (subst ownMerge.simps) simp
  finally show ?case .
qed

subsection \<open>The merge of key-value maps\<close>

lemma map_of_map_entry:
  "map_of (map (\<lambda>(k, v). (k, f k v)) xs) k = map_option (f k) (map_of xs k)"
  by (induction xs) auto

lemma map_of_filter_key:
  "map_of (filter (\<lambda>(k, v). P k) xs) k = (if P k then map_of xs k else None)"
  by (induction xs) auto

lemma filter_map_entry:
  "filter (\<lambda>(k, v). P k) (map (\<lambda>(k, v). (k, f k v)) xs)
   = map (\<lambda>(k, v). (k, f k v)) (filter (\<lambda>(k, v). P k) xs)"
  by (induction xs) auto

lemma ownMerge_unfold:
  "ownMerge baseObj overrideObj =
     map (\<lambda>(key, baseVal). (key, mergeValue baseVal (map_of overrideObj key))) baseObj
     @ filter (\<lambda>(key, v). map_of baseObj key = None) overrideObj"
  by (subst ownMerge.simps) (simp add: mergeValue_def)

lemma map_of_ownMerge:
  "map_of (ownMerge baseObj overrideObj) k =
     (case map_of baseObj k of
        None \<Rightarrow> map_of overrideObj k
      | Some baseVal \<Rightarrow> Some (mergeValue baseVal (map_of overrideObj k)))"
proof -
  have "map_of (map (\<lambda>(key, baseVal). (key, mergeValue baseVal (map_of overrideObj key))) baseObj) k
        = map_option (\<lambda>baseVal. mergeValue baseVal (map_of overrideObj k)) (map_of baseObj k)"
    by (rule map_of_map_entry [where f = "\<lambda>key baseVal. mergeValue baseVal (map_of overrideObj key)"])
  then show ?thesis
    by (simp add: ownMerge_unfold map_add_def map_of_filter_key split: option.splits)
qed

lemma protoFree_ownMerge:
  "protoFree (VObject a) \<Longrightarrow> protoFree (VObject b) \<Longrightarrow> protoFree (VObject (ownMerge a b))"
proof (induction a b rule: ownMerge.induct)
  case (1 a b)
  have "\<not> inObjectPrototype key \<and> protoFree v" if "(key, v) \<in> set (ownMerge a b)" for key v
  proof -
    from that consider
      (base) baseVal where "(key, baseVal) \<in> set a" "v = mergeValue baseVal (map_of b key)"
      | (override) "(key, v) \<in> set b"
      by (auto simp: ownMerge_unfold)
    then show ?thesis
    proof cases
      case base
      from protoFree_entry [OF "1.prems"(1) base(1)]
      have k: "\<not> inObjectPrototype key" and bv: "protoFree baseVal" by simp_all
      show ?thesis
      proof (cases "map_of b key")
        case None
        with k bv base show ?thesis by (simp add: mergeValue_def)
      next
        case (Some overrideVal)
        from protoFree_map_of [OF "1.prems"(2) Some] have ov: "protoFree overrideVal" by simp
        show ?thesis
        proof (cases "\<exists>x y. baseVal = VObject x \<and> overrideVal = VObject y")
          case True
          then obtain x y where xy: "baseVal = VObject x" "overrideVal = VObject y" by blast
          from "1.IH" [OF base(1) refl Some refl xy(1) xy(2)] bv ov xy
          have "protoFree (VObject (ownMerge x y))" by simp
          with k base Some xy show ?thesis by (simp add: mergeValue_def)
        next
          case False
          with k ov base Some show ?thesis
            by (cases baseVal; cases overrideVal) (simp_all add: mergeValue_def)
        qed
      qed
    next
      case override
      from protoFree_entry [OF "1.prems"(2) override] show ?thesis .
    qed
  qed
  then show ?case by (auto simp: list_all_iff)
qed

lemma leafAt_ownMerge:
  "leafAt (ownMerge x y) path =
     (case leafAt y path of
        Some v \<Rightarrow> Some v
      | None \<Rightarrow> if holdsNothing y path then leafAt x path else None)"
proof (induction x path arbitrary: y rule: leafAt.induct)
  case (1 doc)
  show ?case by simp
next
  case (2 doc key)
  show ?case
    by (auto simp: map_of_ownMerge mergeValue_def split: option.splits jsValue.splits)
next
  case (3 doc key "next" path)
  show ?case
  proof (cases "\<exists>nested nestedY. map_of doc key = Some (VObject nested)
                  \<and> map_of y key = Some (VObject nestedY)")
    case True
    then obtain nested nestedY where
      n: "map_of doc key = Some (VObject nested)" "map_of y key = Some (VObject nestedY)"
      by blast
    have x: "leafAt doc (key # next # path) = leafAt nested (next # path)"
      using n(1) by simp
    have y: "leafAt y (key # next # path) = leafAt nestedY (next # path)"
      "holdsNothing y (key # next # path) = holdsNothing nestedY (next # path)"
      using n(2) by simp_all
    have "map_of (ownMerge doc y) key = Some (VObject (ownMerge nested nestedY))"
      using n by (simp add: map_of_ownMerge mergeValue_def)
    then have m: "leafAt (ownMerge doc y) (key # next # path)
                  = leafAt (ownMerge nested nestedY) (next # path)"
      by simp
    show ?thesis
      unfolding m x y by (rule "3.IH" [OF n(1) refl])
  next
    case False
    then show ?thesis
      by (auto simp: map_of_ownMerge mergeValue_def split: option.splits jsValue.splits)
  qed
qed

lemma mergeValue_assoc_entry:
  assumes IH: "\<And>a' b' c'. aVal = VObject a' \<Longrightarrow> map_of c key = Some (VObject c') \<Longrightarrow>
                 map_of b key = Some (VObject b') \<Longrightarrow>
                 ownMerge (ownMerge a' b') c' = ownMerge a' (ownMerge b' c')"
    and ok: "(case (aVal, map_of c key) of
           (VObject a', Some (VObject c')) \<Rightarrow>
              (case map_of b key of
                 None \<Rightarrow> True
               | Some (VObject b') \<Rightarrow> True
               | Some _ \<Rightarrow> False)
         | _ \<Rightarrow> True)"
  shows "mergeValue (mergeValue aVal (map_of b key)) (map_of c key)
         = mergeValue aVal (map_of (ownMerge b c) key)"
  using IH ok
  by (auto simp: mergeValue_def map_of_ownMerge split: option.splits jsValue.splits)

lemma ownMerge_assoc_step:
  assumes entry: "\<And>key aVal. (key, aVal) \<in> set a \<Longrightarrow>
            mergeValue (mergeValue aVal (map_of b key)) (map_of c key)
            = mergeValue aVal (map_of (ownMerge b c) key)"
  shows "ownMerge (ownMerge a b) c = ownMerge a (ownMerge b c)"
proof -
  let ?fB = "\<lambda>(key, v). (key, mergeValue v (map_of b key))"
  let ?fC = "\<lambda>(key, v). (key, mergeValue v (map_of c key))"
  let ?fBC = "\<lambda>(key, v). (key, mergeValue v (map_of (ownMerge b c) key))"
  let ?notA = "\<lambda>(key, v). map_of a key = None"
  let ?notB = "\<lambda>(key, v). map_of b key = None"
  have P1: "map ?fC (map ?fB a) = map ?fBC a"
    using entry by (auto simp: map_eq_conv)
  have P2: "map ?fC (filter ?notA b) = filter ?notA (map ?fC b)"
    by (rule filter_map_entry [where P = "\<lambda>key. map_of a key = None"
          and f = "\<lambda>key v. mergeValue v (map_of c key)", symmetric])
  have P3: "filter (\<lambda>(key, v). map_of (ownMerge a b) key = None) c = filter ?notA (filter ?notB c)"
    by (auto simp: map_of_ownMerge intro!: filter_cong split: option.splits)
  have "ownMerge (ownMerge a b) c
        = map ?fC (ownMerge a b) @ filter (\<lambda>(key, v). map_of (ownMerge a b) key = None) c"
    by (rule ownMerge_unfold)
  also have "map ?fC (ownMerge a b) = map ?fC (map ?fB a) @ map ?fC (filter ?notA b)"
    by (subst ownMerge_unfold [of a b]) (simp only: map_append)
  also have "(map ?fC (map ?fB a) @ map ?fC (filter ?notA b))
              @ filter (\<lambda>(key, v). map_of (ownMerge a b) key = None) c
            = map ?fBC a @ filter ?notA (map ?fC b @ filter ?notB c)"
    by (simp only: P1 P2 P3 filter_append append_assoc)
  also have "map ?fC b @ filter ?notB c = ownMerge b c"
    by (rule ownMerge_unfold [symmetric])
  also have "map ?fBC a @ filter ?notA (ownMerge b c) = ownMerge a (ownMerge b c)"
    by (rule ownMerge_unfold [symmetric])
  finally show ?thesis .
qed

lemma ownMerge_assoc:
  "shadowFree a b c \<Longrightarrow> ownMerge (ownMerge a b) c = ownMerge a (ownMerge b c)"
proof (induction a b c rule: shadowFree.induct)
  case (1 a b c)
  have ok: "list_all (\<lambda>(key, aVal).
        (case (aVal, map_of c key) of
           (VObject a', Some (VObject c')) \<Rightarrow>
              (case map_of b key of
                 None \<Rightarrow> True
               | Some (VObject b') \<Rightarrow> shadowFree a' b' c'
               | Some _ \<Rightarrow> False)
         | _ \<Rightarrow> True)) a"
    using "1.prems" by (subst (asm) shadowFree.simps)
  show ?case
  proof (rule ownMerge_assoc_step)
    fix key aVal
    assume mem: "(key, aVal) \<in> set a"
    with ok have okE: "(case (aVal, map_of c key) of
           (VObject a', Some (VObject c')) \<Rightarrow>
              (case map_of b key of
                 None \<Rightarrow> True
               | Some (VObject b') \<Rightarrow> shadowFree a' b' c'
               | Some _ \<Rightarrow> False)
         | _ \<Rightarrow> True)"
      by (auto simp: list_all_iff)
    show "mergeValue (mergeValue aVal (map_of b key)) (map_of c key)
            = mergeValue aVal (map_of (ownMerge b c) key)"
    proof (rule mergeValue_assoc_entry)
      fix a' b' c'
      assume h: "aVal = VObject a'" "map_of c key = Some (VObject c')"
        "map_of b key = Some (VObject b')"
      with okE have sf: "shadowFree a' b' c'" by simp
      show "ownMerge (ownMerge a' b') c' = ownMerge a' (ownMerge b' c')"
        by (rule "1.IH" [OF mem refl refl h(1) h(2) refl h(3) refl sf])
    next
      show "(case (aVal, map_of c key) of
           (VObject a', Some (VObject c')) \<Rightarrow>
              (case map_of b key of
                 None \<Rightarrow> True
               | Some (VObject b') \<Rightarrow> True
               | Some _ \<Rightarrow> False)
         | _ \<Rightarrow> True)"
        using okE by (auto split: jsValue.splits option.splits)
    qed
  qed
qed

subsection \<open>Keys that name a member of the prototype\<close>

text \<open>
  C2. At every nesting level a key of the base that the override lacks should keep a deep
  copy of the base's value, and a key of the override alone should hold a deep copy of the
  override's value. For a key that names a function of \<^verbatim>\<open>Object.prototype\<close> the code does
  neither. \<^verbatim>\<open>deepMerge({}, {"constructor": 1})\<close> is \<^verbatim>\<open>{}\<close>: \<^verbatim>\<open>"constructor" in baseObj\<close> is
  true of the empty base, and the second loop skips the key. In
  \<^verbatim>\<open>deepMerge({"toString": 1}, {})\<close> the read \<^verbatim>\<open>overrideObj["toString"]\<close> is the inherited
  function, not \<^verbatim>\<open>undefined\<close>, and the result holds that function in place of \<^verbatim>\<open>1\<close>; the
  same happens one level down in \<^verbatim>\<open>deepMerge({"a": {"valueOf": true}}, {"a": {}})\<close>.
\<close>

theorem deepMerge_contract_prototype_keys:
  "deepMerge [] [(''constructor'', ofJson (JNumber 1))] = Some []
   \<and> deepMerge [(''toString'', ofJson (JNumber 1))] []
       = Some [(''toString'', VFunction ''toString'')]
   \<and> deepMerge [(''a'', ofJson (JObject [(''valueOf'', JBool True)]))]
                [(''a'', ofJson (JObject []))]
       = Some [(''a'', VObject [(''valueOf'', VFunction ''valueOf'')])]"
  by code_simp

text \<open>
  C3. Where a key is present in both inputs and either side's value is an array, the
  result should hold the override's value. \<^verbatim>\<open>deepMerge({items:["a","b"]}, {items:["c"]})\<close>
  is \<^verbatim>\<open>{items:["c"]}\<close>, as the specification says. For the key \<^verbatim>\<open>__proto__\<close>, which a parsed
  document can own, \<^verbatim>\<open>deepMerge({"__proto__": [1]}, {"__proto__": 7})\<close> is \<^verbatim>\<open>{}\<close>: the
  assignment \<^verbatim>\<open>result["__proto__"] = 7\<close> calls the setter of \<^verbatim>\<open>Object.prototype\<close>, which
  ignores a number, and the result holds nothing under the key.
\<close>

theorem deepMerge_array_proto_key:
  "deepMerge [(''__proto__'', ofJson (JArray [JNumber 1]))] [(''__proto__'', ofJson (JNumber 7))]
     = Some []
   \<and> deepMerge [(''items'', ofJson (JArray [JString ''a'', JString ''b'']))]
                [(''items'', ofJson (JArray [JString ''c'']))]
       = Some [(''items'', ofJson (JArray [JString ''c'']))]"
  by code_simp

subsection \<open>Precedence and associativity\<close>

text \<open>
  C4, as stated: \<^verbatim>\<open>deepMerge(deepMerge(A, B), C)\<close> equals \<^verbatim>\<open>deepMerge(A, deepMerge(B, C))\<close> for
  all plain documents. It fails for \<^verbatim>\<open>A = {k: {x: 1}}\<close>, \<^verbatim>\<open>B = {k: 0}\<close>, \<^verbatim>\<open>C = {k: {}}\<close>:
  the left side is \<^verbatim>\<open>{k: {}}\<close> (the number in \<^verbatim>\<open>B\<close> replaced the document of \<^verbatim>\<open>A\<close> before
  \<^verbatim>\<open>C\<close> was merged), the right side is \<^verbatim>\<open>{k: {x: 1}}\<close>. In the statement below the
  first equation is \<^verbatim>\<open>deepMerge(A, B)\<close>, which is \<^verbatim>\<open>B\<close> again; the second is therefore both
  \<^verbatim>\<open>deepMerge(deepMerge(A, B), C)\<close> and \<^verbatim>\<open>deepMerge(B, C)\<close>; the third is
  \<^verbatim>\<open>deepMerge(A, deepMerge(B, C))\<close>.
\<close>

theorem deepMerge_assoc_counterexample:
  "deepMerge [(''k'', VObject [(''x'', VNumber 1)])] [(''k'', VNumber 0)]
     = Some [(''k'', VNumber 0)]
   \<and> deepMerge [(''k'', VNumber 0)] [(''k'', VObject [])]
     = Some [(''k'', VObject [])]
   \<and> deepMerge [(''k'', VObject [(''x'', VNumber 1)])] [(''k'', VObject [])]
     = Some [(''k'', VObject [(''x'', VNumber 1)])]
   \<and> [(''k'', VObject [])] \<noteq> [(''k'', VObject [(''x'', VNumber 1)])]"
  by code_simp

text \<open>
  C4, amended: for all plain documents \<^verbatim>\<open>A\<close>, \<^verbatim>\<open>B\<close>, \<^verbatim>\<open>C\<close> none of whose keys names a
  member of \<^verbatim>\<open>Object.prototype\<close>, \<^verbatim>\<open>deepMerge(deepMerge(A, B), C)\<close> is the merge with
  override-wins precedence \<^verbatim>\<open>C > B > A\<close> at every leaf: at every key path it holds the leaf
  that \<^verbatim>\<open>C\<close> holds there; where \<^verbatim>\<open>C\<close> holds nothing on the path, the leaf that \<^verbatim>\<open>B\<close>
  holds there; where \<^verbatim>\<open>C\<close> and \<^verbatim>\<open>B\<close> hold nothing on the path, the leaf that \<^verbatim>\<open>A\<close> holds
  there; and no other leaf. It equals \<^verbatim>\<open>deepMerge(A, deepMerge(B, C))\<close> whenever, wherever
  \<^verbatim>\<open>A\<close> and \<^verbatim>\<open>C\<close> both hold a plain key-value document under the same key path, \<^verbatim>\<open>B\<close> holds
  either nothing or a plain key-value document there.
\<close>

theorem deepMerge_precedence:
  assumes "protoFree (VObject a)" and "protoFree (VObject b)" and "protoFree (VObject c)"
  shows "\<exists>ab abc. deepMerge a b = Some ab \<and> deepMerge ab c = Some abc
           \<and> (\<forall>path. leafAt abc path =
                 (case leafAt c path of
                    Some v \<Rightarrow> Some v
                  | None \<Rightarrow>
                      if holdsNothing c path
                      then (case leafAt b path of
                              Some v \<Rightarrow> Some v
                            | None \<Rightarrow> if holdsNothing b path then leafAt a path else None)
                      else None))
           \<and> (shadowFree a b c
                \<longrightarrow> (\<exists>bc. deepMerge b c = Some bc \<and> deepMerge a bc = Some abc))"
proof (intro exI conjI allI impI)
  show "deepMerge a b = Some (ownMerge a b)"
    using assms(1,2) by (rule deepMerge_protoFree)
  show "deepMerge (ownMerge a b) c = Some (ownMerge (ownMerge a b) c)"
    using protoFree_ownMerge [OF assms(1,2)] assms(3) by (rule deepMerge_protoFree)
  show "leafAt (ownMerge (ownMerge a b) c) path =
          (case leafAt c path of
             Some v \<Rightarrow> Some v
           | None \<Rightarrow>
               if holdsNothing c path
               then (case leafAt b path of
                       Some v \<Rightarrow> Some v
                     | None \<Rightarrow> if holdsNothing b path then leafAt a path else None)
               else None)" for path
    by (simp only: leafAt_ownMerge)
  show "deepMerge b c = Some (ownMerge b c)"
    using assms(2,3) by (rule deepMerge_protoFree)
  show "deepMerge a (ownMerge b c) = Some (ownMerge (ownMerge a b) c)" if "shadowFree a b c"
    using deepMerge_protoFree [OF assms(1) protoFree_ownMerge [OF assms(2,3)]]
      ownMerge_assoc [OF that]
    by simp
qed

theorem deepMerge_precedence_witness:
  "protoFree (VObject [(''k'', VObject [(''x'', VNumber 1), (''z'', VNumber 5)]), (''a'', VNumber 1)])
   \<and> protoFree (VObject [(''k'', VObject [(''y'', VNumber 2)]), (''a'', VNumber 2)])
   \<and> protoFree (VObject [(''k'', VObject [(''x'', VNumber 3)]), (''c'', VArray [])])
   \<and> shadowFree [(''k'', VObject [(''x'', VNumber 1), (''z'', VNumber 5)]), (''a'', VNumber 1)]
                [(''k'', VObject [(''y'', VNumber 2)]), (''a'', VNumber 2)]
                [(''k'', VObject [(''x'', VNumber 3)]), (''c'', VArray [])]
   \<and> deepMerge [(''k'', VObject [(''x'', VNumber 1), (''z'', VNumber 5)]), (''a'', VNumber 1)]
               [(''k'', VObject [(''y'', VNumber 2)]), (''a'', VNumber 2)]
     = Some [(''k'', VObject [(''x'', VNumber 1), (''z'', VNumber 5), (''y'', VNumber 2)]),
             (''a'', VNumber 2)]
   \<and> deepMerge [(''k'', VObject [(''x'', VNumber 1), (''z'', VNumber 5), (''y'', VNumber 2)]),
                (''a'', VNumber 2)]
               [(''k'', VObject [(''x'', VNumber 3)]), (''c'', VArray [])]
     = Some [(''k'', VObject [(''x'', VNumber 3), (''z'', VNumber 5), (''y'', VNumber 2)]),
             (''a'', VNumber 2), (''c'', VArray [])]
   \<and> (\<exists>bc. deepMerge [(''k'', VObject [(''y'', VNumber 2)]), (''a'', VNumber 2)]
                      [(''k'', VObject [(''x'', VNumber 3)]), (''c'', VArray [])]
             = Some bc
           \<and> deepMerge [(''k'', VObject [(''x'', VNumber 1), (''z'', VNumber 5)]), (''a'', VNumber 1)] bc
             = Some [(''k'', VObject [(''x'', VNumber 3), (''z'', VNumber 5), (''y'', VNumber 2)]),
                     (''a'', VNumber 2), (''c'', VArray [])])
   \<and> leafAt [(''k'', VObject [(''x'', VNumber 3), (''z'', VNumber 5), (''y'', VNumber 2)]),
             (''a'', VNumber 2), (''c'', VArray [])] [''k'', ''x''] = Some (VNumber 3)
   \<and> leafAt [(''k'', VObject [(''x'', VNumber 3), (''z'', VNumber 5), (''y'', VNumber 2)]),
             (''a'', VNumber 2), (''c'', VArray [])] [''k'', ''y''] = Some (VNumber 2)
   \<and> leafAt [(''k'', VObject [(''x'', VNumber 3), (''z'', VNumber 5), (''y'', VNumber 2)]),
             (''a'', VNumber 2), (''c'', VArray [])] [''k'', ''z''] = Some (VNumber 5)"
proof -
  let ?a = "[(''k'', VObject [(''x'', VNumber 1), (''z'', VNumber 5)]), (''a'', VNumber 1)]"
  let ?b = "[(''k'', VObject [(''y'', VNumber 2)]), (''a'', VNumber 2)]"
  let ?c = "[(''k'', VObject [(''x'', VNumber 3)]), (''c'', VArray [])]"
  let ?ab = "[(''k'', VObject [(''x'', VNumber 1), (''z'', VNumber 5), (''y'', VNumber 2)]),
              (''a'', VNumber 2)]"
  let ?abc = "[(''k'', VObject [(''x'', VNumber 3), (''z'', VNumber 5), (''y'', VNumber 2)]),
               (''a'', VNumber 2), (''c'', VArray [])]"
  have pa: "protoFree (VObject ?a)" by code_simp
  have pb: "protoFree (VObject ?b)" by code_simp
  have pc: "protoFree (VObject ?c)" by code_simp
  have sf: "shadowFree ?a ?b ?c" by code_simp
  have ab: "deepMerge ?a ?b = Some ?ab" by code_simp
  have abc: "deepMerge ?ab ?c = Some ?abc" by code_simp
  from deepMerge_precedence [OF pa pb pc] obtain ab' abc' where
    1: "deepMerge ?a ?b = Some ab'" and 2: "deepMerge ab' ?c = Some abc'"
    and leaves: "\<And>path. leafAt abc' path =
                 (case leafAt ?c path of
                    Some v \<Rightarrow> Some v
                  | None \<Rightarrow>
                      if holdsNothing ?c path
                      then (case leafAt ?b path of
                              Some v \<Rightarrow> Some v
                            | None \<Rightarrow> if holdsNothing ?b path then leafAt ?a path else None)
                      else None)"
    and assoc: "shadowFree ?a ?b ?c
                \<longrightarrow> (\<exists>bc. deepMerge ?b ?c = Some bc \<and> deepMerge ?a bc = Some abc')"
    by blast
  from 1 ab have "ab' = ?ab" by simp
  with 2 abc have e: "abc' = ?abc" by simp
  from assoc sf e have r: "\<exists>bc. deepMerge ?b ?c = Some bc \<and> deepMerge ?a bc = Some ?abc"
    by simp
  have x: "leafAt ?abc [''k'', ''x''] = Some (VNumber 3)"
    using leaves [of "[''k'', ''x'']"] by (simp add: e)
  have y: "leafAt ?abc [''k'', ''y''] = Some (VNumber 2)"
    using leaves [of "[''k'', ''y'']"] by (simp add: e)
  have z: "leafAt ?abc [''k'', ''z''] = Some (VNumber 5)"
    using leaves [of "[''k'', ''z'']"] by (simp add: e)
  from pa pb pc sf ab abc r x y z show ?thesis by blast
qed

section \<open>Properties of the diff renderer\<close>

text \<open>
  C1. For a document \<^verbatim>\<open>D\<close> used as base, merged result and overrides, the rendering should
  carry no added or modified marker and no side annotation. With \<^verbatim>\<open>D = {a: {b: 1}}\<close> the
  nested branch of \<^verbatim>\<open>collectDiffLines\<close> recurses into \<^verbatim>\<open>a\<close>, gets one (unchanged) line for
  \<^verbatim>\<open>b\<close>, and classifies \<^verbatim>\<open>a\<close> as modified because that list is not empty: the output
  shows \<^verbatim>\<open>a\<close> once as removed from the global side and once as added by the project side,
  with the same value.
\<close>

theorem generateDiffOutput_identical_nested:
  "deepMerge [(''a'', ofJson (JObject [(''b'', JNumber 1)]))]
             [(''a'', ofJson (JObject [(''b'', JNumber 1)]))]
     = Some [(''a'', ofJson (JObject [(''b'', JNumber 1)]))]
   \<and> collectDiffLines [(''a'', JObject [(''b'', JNumber 1)])]
                    [(''a'', JObject [(''b'', JNumber 1)])]
                    [(''a'', JObject [(''b'', JNumber 1)])] ''''
     = [\<lparr> dlType = Modified, dlKey = ''a'', dlPath = ''a'',
          globalValue = Some (JObject [(''b'', JNumber 1)]),
          projectValue = Some (JObject [(''b'', JNumber 1)]),
          mergedValue = Some (JObject [(''b'', JNumber 1)]) \<rparr>]
   \<and> generateDiffOutput chalk [(''a'', JObject [(''b'', JNumber 1)])]
                               [(''a'', JObject [(''b'', JNumber 1)])]
                               [(''a'', JObject [(''b'', JNumber 1)])]
     = join [nl]
         [chalk Gray ''// Merged configuration (project overrides global)'',
          chalk Gray ''// --------------------------------------------------'',
          ''{'',
          chalk Red (''  - '' @ [dq] @ ''a'' @ [dq] @ '': { '' @ [dq] @ ''b'' @ [dq] @ '': 1 }'')
            @ chalk Gray '' // [global]'',
          chalk Green (''  + '' @ [dq] @ ''a'' @ [dq] @ '': { '' @ [dq] @ ''b'' @ [dq] @ '': 1 }'')
            @ chalk Gray '' // [project]'',
          ''}'']"
  by code_simp

section \<open>Properties of the scope resolver and of the settings loader\<close>

lemma findProjectRootLoop_None:
  "(\<forall>n\<le>length dir. \<not> hasOpencodeDir fs (take n dir))
   \<Longrightarrow> findProjectRootLoop fs dir = None"
proof (induction fs dir rule: findProjectRootLoop.induct)
  case (1 fs currentDir)
  show ?case
  proof (cases "currentDir = []")
    case True
    with "1.prems" show ?thesis
      by (subst findProjectRootLoop.simps) (simp add: hasOpencodeDir_def)
  next
    case False
    from "1.prems" have "\<not> hasOpencodeDir fs (take (length currentDir) currentDir)"
      by blast
    then have here: "\<not> (existsSync fs (currentDir @ [OPENCODE_DIR])
                        \<and> isDirectory fs (currentDir @ [OPENCODE_DIR]))"
      by (simp add: hasOpencodeDir_def)
    have up: "\<forall>n\<le>length (dirname currentDir). \<not> hasOpencodeDir fs (take n (dirname currentDir))"
    proof (intro allI impI)
      fix n assume n: "n \<le> length (dirname currentDir)"
      then have "take n (dirname currentDir) = take n currentDir"
        by (simp add: dirname_def butlast_conv_take)
      moreover from n have "n \<le> length currentDir" by (simp add: dirname_def)
      ultimately show "\<not> hasOpencodeDir fs (take n (dirname currentDir))"
        using "1.prems" by simp
    qed
    from "1.IH" [OF False here up] have "findProjectRootLoop fs (dirname currentDir) = None" .
    with False here show ?thesis
      by (subst findProjectRootLoop.simps) simp
  qed
qed

text \<open>
  C8. When no ancestor of the start directory (the directory itself and the file system
  root included) holds the marker directory, \<^verbatim>\<open>findProjectRoot\<close> returns \<^verbatim>\<open>null\<close> and
  \<^verbatim>\<open>resolveProjectRoot\<close> returns the start directory; without a start directory the same
  holds of the current working directory. The ancestors of \<open>d\<close> are \<open>take n d\<close> for
  \<open>n \<le> length d\<close>.
\<close>

theorem findProjectRoot_no_marker:
  "((\<forall>n\<le>length startDir. \<not> hasOpencodeDir fs (take n startDir))
      \<longrightarrow> findProjectRoot fs cwd (Some startDir) = None
          \<and> resolveProjectRoot fs cwd (Some startDir) = startDir)
   \<and> ((\<forall>n\<le>length cwd. \<not> hasOpencodeDir fs (take n cwd))
      \<longrightarrow> findProjectRoot fs cwd None = None
          \<and> resolveProjectRoot fs cwd None = cwd)"
  by (simp add: findProjectRoot_def resolveProjectRoot_def findProjectRootLoop_None)

theorem findProjectRoot_no_marker_witness:
  "\<not> hasOpencodeDir
       (Map.empty([''other'', ''.opencode''] \<mapsto> Directory,
                  [''repo'', ''.opencode''] \<mapsto> File '''')) []
   \<and> \<not> hasOpencodeDir
       (Map.empty([''other'', ''.opencode''] \<mapsto> Directory,
                  [''repo'', ''.opencode''] \<mapsto> File '''')) [''repo'']
   \<and> \<not> hasOpencodeDir
       (Map.empty([''other'', ''.opencode''] \<mapsto> Directory,
                  [''repo'', ''.opencode''] \<mapsto> File '''')) [''repo'', ''packages'']
   \<and> \<not> hasOpencodeDir
       (Map.empty([''other'', ''.opencode''] \<mapsto> Directory,
                  [''repo'', ''.opencode''] \<mapsto> File '''')) [''repo'', ''packages'', ''app'']
   \<and> findProjectRoot
         (Map.empty([''other'', ''.opencode''] \<mapsto> Directory,
                    [''repo'', ''.opencode''] \<mapsto> File ''''))
         [''home''] (Some [''repo'', ''packages'', ''app'']) = None
   \<and> resolveProjectRoot
         (Map.empty([''other'', ''.opencode''] \<mapsto> Directory,
                    [''repo'', ''.opencode''] \<mapsto> File ''''))
         [''home''] (Some [''repo'', ''packages'', ''app'']) = [''repo'', ''packages'', ''app'']
   \<and> findProjectRoot
         (Map.empty([''other'', ''.opencode''] \<mapsto> Directory,
                    [''repo'', ''.opencode''] \<mapsto> File ''''))
         [''repo'', ''packages'', ''app''] None = None
   \<and> resolveProjectRoot
         (Map.empty([''other'', ''.opencode''] \<mapsto> Directory,
                    [''repo'', ''.opencode''] \<mapsto> File ''''))
         [''repo'', ''packages'', ''app''] None = [''repo'', ''packages'', ''app'']"
proof -
  let ?fs = "Map.empty([''other'', ''.opencode''] \<mapsto> Directory,
                       [''repo'', ''.opencode''] \<mapsto> File '''')"
  let ?d = "[''repo'', ''packages'', ''app'']"
  have a: "\<not> hasOpencodeDir ?fs (take n ?d)" for n
    by (cases n rule: nat.exhaust [case_product nat.exhaust [case_product nat.exhaust]])
       (simp_all add: hasOpencodeDir_def existsSync_def isDirectory_def OPENCODE_DIR_def)
  then have h: "\<forall>n\<le>length ?d. \<not> hasOpencodeDir ?fs (take n ?d)"
    by blast
  from a [of 0] a [of 1] a [of 2] a [of 3]
  have anc: "\<not> hasOpencodeDir ?fs [] \<and> \<not> hasOpencodeDir ?fs [''repo'']
             \<and> \<not> hasOpencodeDir ?fs [''repo'', ''packages'']
             \<and> \<not> hasOpencodeDir ?fs [''repo'', ''packages'', ''app'']"
    by (simp add: numeral_2_eq_2 numeral_3_eq_3)
  from h findProjectRoot_no_marker [of ?d ?fs "[''home'']"]
    findProjectRoot_no_marker [of ?d ?fs ?d]
  have "findProjectRoot ?fs [''home''] (Some ?d) = None
        \<and> resolveProjectRoot ?fs [''home''] (Some ?d) = ?d
        \<and> findProjectRoot ?fs ?d None = None
        \<and> resolveProjectRoot ?fs ?d None = ?d"
    by blast
  with anc show ?thesis by blast
qed

text \<open>
  C7. When the rc file, or the settings file, holds text that \<^verbatim>\<open>JSON.parse\<close> rejects, the
  load returns what it returns when the file is absent, \<^verbatim>\<open>null\<close> for the project rc and
  the default settings record for the global settings, and it returns: the parse error
  does not reach the caller.
\<close>

theorem load_unparseable_is_default:
  "(fs (getProjectRcPath projectRoot) = Some (File content) \<and> jsonParse content = Inl e
      \<longrightarrow> loadProjectRc jsonParse fs projectRoot = Inr JNull
          \<and> loadProjectRc jsonParse (fs(getProjectRcPath projectRoot := None)) projectRoot
              = Inr JNull)
   \<and> (fs (getSettingsPath xdgConfigHome homedir) = Some (File content) \<and> jsonParse content = Inl e
      \<longrightarrow> loadGlobalSettings jsonParse DEFAULT_SETTINGS xdgConfigHome homedir fs
              = Inr DEFAULT_SETTINGS
          \<and> loadGlobalSettings jsonParse DEFAULT_SETTINGS xdgConfigHome homedir
                (fs(getSettingsPath xdgConfigHome homedir := None))
              = Inr DEFAULT_SETTINGS)"
  by (simp add: loadProjectRc_def loadGlobalSettings_def existsSync_def readFileSync_def)

theorem load_unparseable_is_default_witness:
  "loadProjectRc (\<lambda>s. if s = ''{}'' then Inr (JObject []) else Inl (Exn ''SyntaxError''))
      (Map.empty([''p'', ''.opencode'', ''.omorc''] \<mapsto> File ''{ not json'',
                 [''home'', ''.config'', ''omo-switch'', ''settings.json''] \<mapsto> File ''{ not json''))
      [''p'']
     = Inr JNull
   \<and> loadGlobalSettings (\<lambda>s. if s = ''{}'' then Inr (JObject []) else Inl (Exn ''SyntaxError''))
        [''activeType'' \<mapsto> JString ''omo''] None [''home'']
        (Map.empty([''p'', ''.opencode'', ''.omorc''] \<mapsto> File ''{ not json'',
                   [''home'', ''.config'', ''omo-switch'', ''settings.json''] \<mapsto> File ''{ not json''))
     = Inr [''activeType'' \<mapsto> JString ''omo'']"
proof -
  let ?parse = "\<lambda>s. if s = ''{}'' then Inr (JObject []) else Inl (Exn ''SyntaxError'')"
  let ?fs = "Map.empty([''p'', ''.opencode'', ''.omorc''] \<mapsto> File ''{ not json'',
      [''home'', ''.config'', ''omo-switch'', ''settings.json''] \<mapsto> File ''{ not json'')"
  have rc: "?fs (getProjectRcPath [''p'']) = Some (File ''{ not json'')
            \<and> ?parse ''{ not json'' = Inl (Exn ''SyntaxError'')"
    by (simp add: getProjectRcPath_def OPENCODE_DIR_def PROJECT_RC_FILE_def)
  have st: "?fs (getSettingsPath None [''home'']) = Some (File ''{ not json'')
            \<and> ?parse ''{ not json'' = Inl (Exn ''SyntaxError'')"
    by (simp add: getSettingsPath_def)
  from rc st
    load_unparseable_is_default [of ?fs "[''p'']" "''{ not json''" ?parse "Exn ''SyntaxError''"
      None "[''home'']" "[''activeType'' \<mapsto> JString ''omo'']"]
  show ?thesis by blast
qed

text \<open>
  C10. When the settings file parses to a (partial) settings record, the record that
  \<^verbatim>\<open>loadGlobalSettings\<close> returns has every field of the default settings; a field that the
  file has keeps the file's value and a field that the file lacks has the default value.
\<close>

theorem loadGlobalSettings_fills_defaults:
  "fs (getSettingsPath xdgConfigHome homedir) = Some (File content)
   \<and> jsonParse content = Inr (JObject parsed)
   \<longrightarrow> (\<exists>settings.
          loadGlobalSettings jsonParse DEFAULT_SETTINGS xdgConfigHome homedir fs = Inr settings
          \<and> (\<forall>field. DEFAULT_SETTINGS field \<noteq> None \<longrightarrow> settings field \<noteq> None)
          \<and> (\<forall>field v. map_of parsed field = Some v \<longrightarrow> settings field = Some v)
          \<and> (\<forall>field. map_of parsed field = None \<longrightarrow> settings field = DEFAULT_SETTINGS field))"
  by (auto simp: loadGlobalSettings_def existsSync_def readFileSync_def spreadProps_def
      map_add_def split: option.splits)

theorem loadGlobalSettings_fills_defaults_witness:
  "(\<exists>settings.
      loadGlobalSettings
        (\<lambda>s. if s = ''{'' @ [dq] @ ''activeType'' @ [dq] @ '':'' @ [dq] @ ''slim'' @ [dq] @ ''}''
             then Inr (JObject [(''activeType'', JString ''slim'')])
             else Inl (Exn ''SyntaxError''))
        [''activeType'' \<mapsto> JString ''omo''] None [''home'']
        (Map.empty([''home'', ''.config'', ''omo-switch'', ''settings.json'']
           \<mapsto> File (''{'' @ [dq] @ ''activeType'' @ [dq] @ '':'' @ [dq] @ ''slim'' @ [dq] @ ''}'')))
        = Inr settings
      \<and> settings ''activeType'' = Some (JString ''slim'')
      \<and> settings \<noteq> [''activeType'' \<mapsto> JString ''omo''])
   \<and> (\<exists>settings.
      loadGlobalSettings
        (\<lambda>s. if s = ''{'' @ [dq] @ ''verbose'' @ [dq] @ '':true}''
             then Inr (JObject [(''verbose'', JBool True)])
             else Inl (Exn ''SyntaxError''))
        [''activeType'' \<mapsto> JString ''omo''] None [''home'']
        (Map.empty([''home'', ''.config'', ''omo-switch'', ''settings.json'']
           \<mapsto> File (''{'' @ [dq] @ ''verbose'' @ [dq] @ '':true}'')))
        = Inr settings
      \<and> settings ''activeType'' = Some (JString ''omo'')
      \<and> settings ''verbose'' = Some (JBool True))"
proof (intro conjI)
  let ?text = "''{'' @ [dq] @ ''activeType'' @ [dq] @ '':'' @ [dq] @ ''slim'' @ [dq] @ ''}''"
  let ?parsed = "[(''activeType'', JString ''slim'')]"
  let ?parse = "\<lambda>s. if s = ?text then Inr (JObject ?parsed) else Inl (Exn ''SyntaxError'')"
  let ?fs = "Map.empty([''home'', ''.config'', ''omo-switch'', ''settings.json''] \<mapsto> File ?text)"
  let ?D = "[''activeType'' \<mapsto> JString ''omo'']"
  have h: "?fs (getSettingsPath None [''home'']) = Some (File ?text)
           \<and> ?parse ?text = Inr (JObject ?parsed)"
    by (simp add: getSettingsPath_def)
  with loadGlobalSettings_fills_defaults [of ?fs None "[''home'']" ?text ?parse ?parsed ?D]
  obtain settings where
    s: "loadGlobalSettings ?parse ?D None [''home''] ?fs = Inr settings"
    and kept: "\<forall>field v. map_of ?parsed field = Some v \<longrightarrow> settings field = Some v"
    by blast
  from kept have a: "settings ''activeType'' = Some (JString ''slim'')" by simp
  from a have n: "settings \<noteq> ?D" by (auto dest: fun_cong [where x = "''activeType''"])
  from s a n show "\<exists>settings. loadGlobalSettings ?parse ?D None [''home''] ?fs = Inr settings
      \<and> settings ''activeType'' = Some (JString ''slim'') \<and> settings \<noteq> ?D"
    by blast
next
  let ?text = "''{'' @ [dq] @ ''verbose'' @ [dq] @ '':true}''"
  let ?parsed = "[(''verbose'', JBool True)]"
  let ?parse = "\<lambda>s. if s = ?text then Inr (JObject ?parsed) else Inl (Exn ''SyntaxError'')"
  let ?fs = "Map.empty([''home'', ''.config'', ''omo-switch'', ''settings.json''] \<mapsto> File ?text)"
  let ?D = "[''activeType'' \<mapsto> JString ''omo'']"
  have h: "?fs (getSettingsPath None [''home'']) = Some (File ?text)
           \<and> ?parse ?text = Inr (JObject ?parsed)"
    by (simp add: getSettingsPath_def)
  with loadGlobalSettings_fills_defaults [of ?fs None "[''home'']" ?text ?parse ?parsed ?D]
  obtain settings where
    s: "loadGlobalSettings ?parse ?D None [''home''] ?fs = Inr settings"
    and kept: "\<forall>field v. map_of ?parsed field = Some v \<longrightarrow> settings field = Some v"
    and filled: "\<forall>field. map_of ?parsed field = None \<longrightarrow> settings field = ?D field"
    by blast
  from filled have a: "settings ''activeType'' = Some (JString ''omo'')" by simp
  from kept have v: "settings ''verbose'' = Some (JBool True)" by simp
  from s a v show "\<exists>settings. loadGlobalSettings ?parse ?D None [''home''] ?fs = Inr settings
      \<and> settings ''activeType'' = Some (JString ''omo'') \<and> settings ''verbose'' = Some (JBool True)"
    by blast
qed

section \<open>Properties of the backup cleaner\<close>

lemma sweepFiles_prefix:
  "sweepFiles (cutoffTime now) files k
     = ((case dropWhile statSucceeds files of
           [] \<Rightarrow> None
         | entry # entries \<Rightarrow> (case entryStat entry of Inl e \<Rightarrow> Some e | Inr st \<Rightarrow> None)),
        k + length (filter (deletable now) (takeWhile statSucceeds files)),
        filter (\<lambda>entry. \<not> deletable now entry) (takeWhile statSucceeds files)
          @ dropWhile statSucceeds files)"
proof (induction files arbitrary: k)
  case Nil
  then show ?case by simp
next
  case (Cons entry entries)
  show ?case
  proof (cases "entryStat entry")
    case (Inl e)
    then show ?thesis by (simp add: statSucceeds_def)
  next
    case (Inr st)
    obtain isDir mtime where st: "st = (isDir, mtime)" by (cases st)
    from Inr have ok: "statSucceeds entry" by (simp add: statSucceeds_def)
    have del: "deletable now entry \<longleftrightarrow> \<not> isDir \<and> mtime < cutoffTime now \<and> \<not> unlinkThrows entry"
      using Inr st by (auto simp: deletable_def expired_def)
    show ?thesis
    proof (cases "deletable now entry")
      case True
      with del Inr st ok show ?thesis by (simp add: Cons.IH)
    next
      case False
      with del Inr st ok show ?thesis by (auto simp: Cons.IH)
    qed
  qed
qed

text \<open>
  C9. \<^verbatim>\<open>cleanOldBackups\<close> never raises, whatever the directory and whichever deletions
  fail; it returns 0 when the directory does not exist (and when it cannot be listed). On
  a listed directory the sweep covers the entries up to the first one that \<^verbatim>\<open>statSync\<close>
  rejects, all of them when there is none, whichever deletions fail: of these entries
  every expired file whose deletion does not fail is deleted and no other entry is, a
  file whose deletion fails stays and does not keep the sweep from the entries after it,
  and the number returned is the number of files deleted.
\<close>

theorem cleanOldBackups_tolerant:
  "(\<exists>n. fst (cleanOldBackups now backupsDir) = Inr n)
   \<and> cleanOldBackups now Missing = (Inr 0, Missing)
   \<and> cleanOldBackups now (Unreadable e) = (Inr 0, Unreadable e)
   \<and> cleanOldBackups now (Listing files)
       = (Inr (length (filter (deletable now) (takeWhile statSucceeds files))),
          Listing (filter (\<lambda>file. \<not> deletable now file) (takeWhile statSucceeds files)
                   @ dropWhile statSucceeds files))
   \<and> length (filter (deletable now) (takeWhile statSucceeds files))
       + length (filter (\<lambda>file. \<not> deletable now file) (takeWhile statSucceeds files)
                 @ dropWhile statSucceeds files)
       = length files"
proof (intro conjI)
  show "\<exists>n. fst (cleanOldBackups now backupsDir) = Inr n"
    by (auto simp: cleanOldBackups_def split: backupsDir.splits prod.splits option.splits)
next
  show "cleanOldBackups now Missing = (Inr 0, Missing)"
    by (simp add: cleanOldBackups_def)
next
  show "cleanOldBackups now (Unreadable e) = (Inr 0, Unreadable e)"
    by (simp add: cleanOldBackups_def)
next
  show "cleanOldBackups now (Listing files)
       = (Inr (length (filter (deletable now) (takeWhile statSucceeds files))),
          Listing (filter (\<lambda>file. \<not> deletable now file) (takeWhile statSucceeds files)
                   @ dropWhile statSucceeds files))"
    by (simp add: cleanOldBackups_def sweepFiles_prefix [of now files 0] split: option.splits)
next
  have "length (filter (deletable now) (takeWhile statSucceeds files))
          + length (filter (\<lambda>file. \<not> deletable now file) (takeWhile statSucceeds files))
        = length (takeWhile statSucceeds files)"
    by (rule sum_length_filter_compl)
  moreover have "length (takeWhile statSucceeds files) + length (dropWhile statSucceeds files)
                 = length files"
    by (simp flip: length_append)
  ultimately show "length (filter (deletable now) (takeWhile statSucceeds files))
       + length (filter (\<lambda>file. \<not> deletable now file) (takeWhile statSucceeds files)
                 @ dropWhile statSucceeds files)
       = length files"
    by simp
qed

theorem cleanOldBackups_tolerant_witness:
  "cleanOldBackups 8640000000
        (Listing [\<lparr>entryName = ''old1.json'', entryStat = Inr (False, 5184000000), unlinkThrows = False\<rparr>,
                  \<lparr>entryName = ''old2.json'', entryStat = Inr (False, 5184000000), unlinkThrows = True\<rparr>,
                  \<lparr>entryName = ''recent.json'', entryStat = Inr (False, 7776000000), unlinkThrows = False\<rparr>,
                  \<lparr>entryName = ''subdir'', entryStat = Inr (True, 5184000000), unlinkThrows = False\<rparr>,
                  \<lparr>entryName = ''old3.json'', entryStat = Inr (False, 5184000000), unlinkThrows = False\<rparr>,
                  \<lparr>entryName = ''gone.json'', entryStat = Inl (Exn ''ENOENT''), unlinkThrows = False\<rparr>,
                  \<lparr>entryName = ''old4.json'', entryStat = Inr (False, 5184000000), unlinkThrows = False\<rparr>])
     = (Inr 2,
        Listing [\<lparr>entryName = ''old2.json'', entryStat = Inr (False, 5184000000), unlinkThrows = True\<rparr>,
                 \<lparr>entryName = ''recent.json'', entryStat = Inr (False, 7776000000), unlinkThrows = False\<rparr>,
                 \<lparr>entryName = ''subdir'', entryStat = Inr (True, 5184000000), unlinkThrows = False\<rparr>,
                 \<lparr>entryName = ''gone.json'', entryStat = Inl (Exn ''ENOENT''), unlinkThrows = False\<rparr>,
                 \<lparr>entryName = ''old4.json'', entryStat = Inr (False, 5184000000), unlinkThrows = False\<rparr>])"
proof -
  let ?files = "[\<lparr>entryName = ''old1.json'', entryStat = Inr (False, 5184000000), unlinkThrows = False\<rparr>,
                 \<lparr>entryName = ''old2.json'', entryStat = Inr (False, 5184000000), unlinkThrows = True\<rparr>,
                 \<lparr>entryName = ''recent.json'', entryStat = Inr (False, 7776000000), unlinkThrows = False\<rparr>,
                 \<lparr>entryName = ''subdir'', entryStat = Inr (True, 5184000000), unlinkThrows = False\<rparr>,
                 \<lparr>entryName = ''old3.json'', entryStat = Inr (False, 5184000000), unlinkThrows = False\<rparr>,
                 \<lparr>entryName = ''gone.json'', entryStat = Inl (Exn ''ENOENT''), unlinkThrows = False\<rparr>,
                 \<lparr>entryName = ''old4.json'', entryStat = Inr (False, 5184000000), unlinkThrows = False\<rparr>]"
  from cleanOldBackups_tolerant [of 8640000000 Missing "Exn ''EACCES''" ?files]
  have "cleanOldBackups 8640000000 (Listing ?files)
       = (Inr (length (filter (deletable 8640000000) (takeWhile statSucceeds ?files))),
          Listing (filter (\<lambda>file. \<not> deletable 8640000000 file) (takeWhile statSucceeds ?files)
                   @ dropWhile statSucceeds ?files))"
    by blast
  then show ?thesis
    by (simp add: deletable_def expired_def statSucceeds_def cutoffTime_def retentionMs_def
        BACKUP_RETENTION_DAYS_def)
qed

section \<open>Properties of the command handlers\<close>

subsection \<open>Removing the active profile\<close>

lemma wFiles_deleteProfileConfig: "wFiles (deleteProfileConfig w ident) = wFiles w"
  by (simp add: deleteProfileConfig_def split: option.splits prod.splits)

lemma loadProjectRc_after_save:
  "jsonParse (jsonStringify rc) = Inr rc
   \<Longrightarrow> loadProjectRc jsonParse (saveProjectRc jsonStringify fs root rc) root = Inr rc"
  by (simp add: loadProjectRc_def saveProjectRc_def writeFileSync_def existsSync_def
      readFileSync_def)

lemma resetActiveRc_clears:
  assumes "resetActiveRc env w root ident = Inr w'"
    and "loadRc env w root = Inr rc" "truthy rc"
    and "getProp rc ''activeProfileId'' = Some (JString ident)"
    and "envJsonParse env (envJsonStringify env (JObject [(''activeProfileId'', JNull)]))
           = Inr (JObject [(''activeProfileId'', JNull)])"
  shows "loadRc env w' root = Inr (JObject [(''activeProfileId'', JNull)])"
  using assms
  by (auto simp: resetActiveRc_def loadRc_def saveRc_def loadProjectRc_after_save)

lemma deleteProfile_clears:
  "activeProfileId (loadIndex w) = Some ident
   \<Longrightarrow> activeProfileId (loadIndex (deleteProfile w ident)) = None"
  by (simp add: deleteProfile_def loadIndex_def saveIndex_def)

lemma deletedMessage_neq: "deletedMessage ident ''[project]'' \<noteq> deletedMessage ident ''[user]''"
  by (simp add: deletedMessage_def)

text \<open>
  C5. After \<^verbatim>\<open>handleOmoRm\<close> has deleted, from the project, the profile that the project rc
  record names as active, the rc record read back from disk has \<^verbatim>\<open>activeProfileId\<close>
  \<^verbatim>\<open>null\<close> (given that \<^verbatim>\<open>JSON.parse\<close> reads back the record \<^verbatim>\<open>JSON.stringify\<close> wrote); after it
  has deleted, from the global store, the profile that the index names as active, the
  index read back has \<^verbatim>\<open>activeProfileId\<close> \<^verbatim>\<open>null\<close>. The success message tells the scope the
  profile was deleted from.
\<close>

theorem delete_active_clears_reference:
  "(handleOmoRm env confirmed ident scope force projectRoot w
      = Inr (Succeeded (deletedMessage ident ''[project]'') [] w')
    \<and> projectRoot = Some root
    \<and> loadRc env w root = Inr rc \<and> truthy rc
    \<and> getProp rc ''activeProfileId'' = Some (JString ident)
    \<and> envJsonParse env (envJsonStringify env (JObject [(''activeProfileId'', JNull)]))
         = Inr (JObject [(''activeProfileId'', JNull)])
    \<longrightarrow> loadRc env w' root = Inr (JObject [(''activeProfileId'', JNull)]))
   \<and> (handleOmoRm env confirmed ident scope force projectRoot w
      = Inr (Succeeded (deletedMessage ident ''[user]'') [] w')
    \<and> activeProfileId (loadIndex w) = Some ident
    \<longrightarrow> activeProfileId (loadIndex w') = None)"
proof (intro conjI impI)
  assume h: "handleOmoRm env confirmed ident scope force projectRoot w
      = Inr (Succeeded (deletedMessage ident ''[project]'') [] w')
    \<and> projectRoot = Some root
    \<and> loadRc env w root = Inr rc \<and> truthy rc
    \<and> getProp rc ''activeProfileId'' = Some (JString ident)
    \<and> envJsonParse env (envJsonStringify env (JObject [(''activeProfileId'', JNull)]))
         = Inr (JObject [(''activeProfileId'', JNull)])"
  then have "resetActiveRc env (deleteProfileConfig w ident) root ident = Inr w'"
    by (auto simp: handleOmoRm_def deletedMessage_neq deletedMessage_neq [symmetric]
        split: if_splits option.splits sum.splits)
  moreover from h have "loadRc env (deleteProfileConfig w ident) root = Inr rc"
    by (simp add: loadRc_def wFiles_deleteProfileConfig)
  ultimately show "loadRc env w' root = Inr (JObject [(''activeProfileId'', JNull)])"
    using h by (blast intro: resetActiveRc_clears)
next
  assume h: "handleOmoRm env confirmed ident scope force projectRoot w
      = Inr (Succeeded (deletedMessage ident ''[user]'') [] w')
    \<and> activeProfileId (loadIndex w) = Some ident"
  then have "w' = deleteProfile w ident"
    by (auto simp: handleOmoRm_def deletedMessage_neq deletedMessage_neq [symmetric]
        split: if_splits option.splits sum.splits)
  with h show "activeProfileId (loadIndex w') = None"
    by (simp add: deleteProfile_clears)
qed

theorem delete_active_clears_reference_witness:
  "handleOmoRm sampleEnv False ''work'' (Some ''project'') True (Some [''proj'']) sampleWorld
     = Inr (Succeeded (deletedMessage ''work'' ''[project]'') []
              (saveRc sampleEnv (deleteProfileConfig sampleWorld ''work'') [''proj'']
                 (JObject [(''activeProfileId'', JNull)])))
   \<and> loadRc sampleEnv sampleWorld [''proj''] = Inr (JObject [(''activeProfileId'', JString ''work'')])
   \<and> loadRc sampleEnv
        (saveRc sampleEnv (deleteProfileConfig sampleWorld ''work'') [''proj'']
           (JObject [(''activeProfileId'', JNull)]))
        [''proj'']
     = Inr (JObject [(''activeProfileId'', JNull)])
   \<and> handleOmoRm sampleEnv False ''work'' (Some ''user'') True None sampleWorld
     = Inr (Succeeded (deletedMessage ''work'' ''[user]'') [] (deleteProfile sampleWorld ''work''))
   \<and> activeProfileId (loadIndex sampleWorld) = Some ''work''
   \<and> activeProfileId (loadIndex (deleteProfile sampleWorld ''work'')) = None"
proof -
  let ?w1 = "saveRc sampleEnv (deleteProfileConfig sampleWorld ''work'') [''proj'']
               (JObject [(''activeProfileId'', JNull)])"
  have ce: "configExists sampleWorld ''work''"
    by code_simp
  have rc: "loadRc sampleEnv sampleWorld [''proj''] = Inr (JObject [(''activeProfileId'', JString ''work'')])"
    by code_simp
  then have "loadRc sampleEnv (deleteProfileConfig sampleWorld ''work'') [''proj'']
               = Inr (JObject [(''activeProfileId'', JString ''work'')])"
    by (simp add: loadRc_def wFiles_deleteProfileConfig)
  then have ra: "resetActiveRc sampleEnv (deleteProfileConfig sampleWorld ''work'') [''proj''] ''work''
                  = Inr ?w1"
    by (simp add: resetActiveRc_def)
  have run: "handleOmoRm sampleEnv False ''work'' (Some ''project'') True (Some [''proj'']) sampleWorld
               = Inr (Succeeded (deletedMessage ''work'' ''[project]'') [] ?w1)"
    by (simp add: handleOmoRm_def ce ra)
  have rt: "envJsonParse sampleEnv (envJsonStringify sampleEnv (JObject [(''activeProfileId'', JNull)]))
              = Inr (JObject [(''activeProfileId'', JNull)])"
    by code_simp
  have tr: "truthy (JObject [(''activeProfileId'', JString ''work'')])
            \<and> getProp (JObject [(''activeProfileId'', JString ''work'')]) ''activeProfileId''
                = Some (JString ''work'')"
    by simp
  have fnd: "find (\<lambda>p. profileId p = ''work'') (profiles (loadIndex sampleWorld)) \<noteq> None"
    by code_simp
  then have runU: "handleOmoRm sampleEnv False ''work'' (Some ''user'') True None sampleWorld
               = Inr (Succeeded (deletedMessage ''work'' ''[user]'') [] (deleteProfile sampleWorld ''work''))"
    by (auto simp: handleOmoRm_def)
  have act: "activeProfileId (loadIndex sampleWorld) = Some ''work''"
    by code_simp
  from run rc rt tr
    delete_active_clears_reference [of sampleEnv False "''work''" "Some ''project''" True
      "Some [''proj'']" sampleWorld ?w1 "[''proj'']" "JObject [(''activeProfileId'', JString ''work'')]"]
  have p: "loadRc sampleEnv ?w1 [''proj''] = Inr (JObject [(''activeProfileId'', JNull)])"
    by blast
  from runU act
    delete_active_clears_reference [of sampleEnv False "''work''" "Some ''user''" True
      None sampleWorld "deleteProfile sampleWorld ''work''"]
  have u: "activeProfileId (loadIndex (deleteProfile sampleWorld ''work'')) = None"
    by blast
  from run rc p runU act u show ?thesis by blast
qed

subsection \<open>Applying a profile that fails validation\<close>

lemma syncProfiles_frame:
  "wFiles (syncProfiles env w) = wFiles w"
  "wGlobalConfigs (syncProfiles env w) = wGlobalConfigs w"
  "wGlobalBackups (syncProfiles env w) = wGlobalBackups w"
  "wSchemaCache (syncProfiles env w) = wSchemaCache w"
  "wProjectConfigs (syncProfiles env w) = wProjectConfigs w"
  "activeProfileId (loadIndex (syncProfiles env w)) = activeProfileId (loadIndex w)"
  by (simp_all add: syncProfiles_def saveIndex_def loadIndex_def)

lemma loadIndex_syncProfiles:
  "loadIndex (syncProfiles env w)
     = (loadIndex w)\<lparr> profiles := profiles (loadIndex w)
          @ map (\<lambda>ident. \<lparr> profileId = ident, profileName = ident, profileConfig = JObject [],
                             createdAt = envTimestamp env, updatedAt = envTimestamp env \<rparr>)
              (orphanIds w) \<rparr>"
  by (simp add: syncProfiles_def saveIndex_def loadIndex_def)

lemma wIndex_syncProfiles:
  "orphanIds w = [] \<Longrightarrow> wIndex (syncProfiles env w) = wIndex w"
  by (simp add: syncProfiles_def)

lemma mkdirSync_other:
  "length dir \<le> length p \<Longrightarrow> p \<noteq> dir \<Longrightarrow> mkdirSync fs dir p = fs p"
  by (auto simp: mkdirSync_def)

lemma mkdirSync_longer:
  "length dir < length p \<Longrightarrow> mkdirSync fs dir p = fs p"
  by (rule mkdirSync_other) auto

lemma ensureProjectDirs_other:
  "length root + 2 \<le> length p \<Longrightarrow> p \<noteq> getProjectConfigsPath root
   \<Longrightarrow> ensureProjectDirs fs root p = fs p"
  by (auto simp: ensureProjectDirs_def Let_def mkdirSync_other mkdirSync_longer
      getProjectConfigsPath_def)

lemma ensureDirectories_frame:
  "wIndex (ensureDirectories w root) = wIndex w"
  "wGlobalConfigs (ensureDirectories w root) = wGlobalConfigs w"
  "wGlobalBackups (ensureDirectories w root) = wGlobalBackups w"
  "wSchemaCache (ensureDirectories w root) = wSchemaCache w"
  "wProjectConfigs (ensureDirectories w root) = wProjectConfigs w"
  by (simp_all add: ensureDirectories_def Let_def)

lemma ensureDirectories_other:
  assumes "length root + 2 \<le> length p"
    and "p \<noteq> getProjectConfigsPath root" "p \<noteq> projectBackupsPath root"
    and "p \<noteq> root @ [OPENCODE_DIR, ''.gitignore'']"
  shows "wFiles (ensureDirectories w root) p = wFiles w p"
proof -
  have a: "ensureProjectDirs (wFiles w) root p = wFiles w p"
    using assms by (simp add: ensureProjectDirs_other)
  have b: "mkdirSync fs (projectBackupsPath root) p = fs p" for fs
    using assms by (simp add: mkdirSync_other projectBackupsPath_def)
  show ?thesis
    using assms(4) a b
    by (simp add: ensureDirectories_def Let_def writeFileSync_def
        split: option.splits node.splits)
qed

lemma ensureDirectories_protected:
  "wFiles (ensureDirectories w root) (getProjectTargetPath root) = wFiles w (getProjectTargetPath root)"
  "wFiles (ensureDirectories w root) (getProjectRcPath root) = wFiles w (getProjectRcPath root)"
  "wFiles (ensureDirectories w root) (projectBackupsPath root @ [name])
     = wFiles w (projectBackupsPath root @ [name])"
  by (rule ensureDirectories_other;
      simp add: getProjectTargetPath_def getProjectRcPath_def getProjectConfigsPath_def
        projectBackupsPath_def OPENCODE_DIR_def OMO_CONFIGS_DIR_def TARGET_CONFIG_FILE_def
        PROJECT_RC_FILE_def)+

lemma ensureSchemaAvailable_frame:
  assumes "ensureSchemaAvailable env w = Inr w'"
  shows "wFiles w' = wFiles w" "wIndex w' = wIndex w" "wGlobalConfigs w' = wGlobalConfigs w"
    "wGlobalBackups w' = wGlobalBackups w" "wProjectConfigs w' = wProjectConfigs w"
  using assms
  by (auto simp: ensureSchemaAvailable_def split: option.splits sum.splits if_splits)

lemma reachValidation_world:
  assumes "reachValidation env identifier scope w = Inr ctx"
  shows "ensureSchemaAvailable env
           (case ctxProjectRoot ctx of
              Some root \<Rightarrow> ensureDirectories (syncProfiles env w) root
            | None \<Rightarrow> syncProfiles env w)
         = Inr (ctxWorld ctx)"
  using assms
  by (auto simp: reachValidation_def Let_def
      split: if_splits prod.splits option.splits sum.splits exn.splits)

lemma reachValidation_root:
  assumes "reachValidation env identifier scope w = Inr ctx"
  shows "(scope = ''user'' \<and> ctxProjectRoot ctx = None)
         \<or> (scope = ''project''
            \<and> ctxProjectRoot ctx = Some (resolveProjectRoot (wFiles w) (envCwd env) None))"
  using assms
  by (auto simp: reachValidation_def Let_def syncProfiles_frame
      split: if_splits prod.splits option.splits sum.splits exn.splits)

lemma loadRc_cong:
  "wFiles w' (getProjectRcPath root) = wFiles w (getProjectRcPath root)
   \<Longrightarrow> loadRc env w' root = loadRc env w root"
  by (simp add: loadRc_def loadProjectRc_def existsSync_def readFileSync_def)

lemma apply_exits_when_invalid:
  "reachValidation env identifier scope w = Inr ctx \<Longrightarrow> \<not> fst (ctxValidation ctx)
   \<Longrightarrow> handleOmoApply env identifier scope w
       = Inr (Failed ''Configuration validation failed''
                (''Validation errors:'' # map (\<lambda>err. ''  - '' @ err) (snd (ctxValidation ctx)))
                (ctxWorld ctx))"
  by (simp add: handleOmoApply_def)

lemma sample_reach_user:
  "(case reachValidation sampleEnv ''bad'' ''user'' sampleWorld of
      Inr ctx \<Rightarrow> ctxProjectRoot ctx = None
                 \<and> ctxValidation ctx = (False, [''/bad: must be string'', ''(root): must match schema''])
    | Inl early \<Rightarrow> False)"
  by code_simp

lemma sample_reach_project:
  "(case reachValidation sampleEnv ''bad'' ''project'' sampleWorld of
      Inr ctx \<Rightarrow> ctxProjectRoot ctx = Some [''proj'']
                 \<and> ctxValidation ctx = (False, [''/bad: must be string'', ''(root): must match schema''])
    | Inl early \<Rightarrow> False)"
  by code_simp

lemma sample_schema:
  "wSchemaCache w = None \<Longrightarrow> ensureSchemaAvailable sampleEnv w = Inr (w\<lparr> wSchemaCache := Some ''{}'' \<rparr>)"
  by (simp add: ensureSchemaAvailable_def sampleEnv_def)

text \<open>
  C6, as stated: when the chosen profile fails schema validation, the store index and the
  backup directory (among others) are left unchanged. In the sample state the global
  configs directory holds \<^verbatim>\<open>bad.json\<close>, which the index does not list. \<^verbatim>\<open>apply bad\<close> first
  synchronises the index with the directory, which adds and persists an entry for \<^verbatim>\<open>bad\<close>,
  and then fails validation: the index file has changed. With \<^verbatim>\<open>--scope project\<close> it also
  ensures the directories of the project before it validates: the project's backups
  directory, missing before, exists after the failed run.
\<close>

theorem handleOmoApply_invalid_counterexample:
  "handleOmoApply sampleEnv ''bad'' ''user'' sampleWorld
     = Inr (Failed ''Configuration validation failed''
              [''Validation errors:'', ''  - /bad: must be string'', ''  - (root): must match schema'']
              ((syncProfiles sampleEnv sampleWorld)\<lparr> wSchemaCache := Some ''{}'' \<rparr>))
   \<and> wIndex ((syncProfiles sampleEnv sampleWorld)\<lparr> wSchemaCache := Some ''{}'' \<rparr>)
       \<noteq> wIndex sampleWorld
   \<and> handleOmoApply sampleEnv ''bad'' ''project'' sampleWorld
     = Inr (Failed ''Configuration validation failed''
              [''Validation errors:'', ''  - /bad: must be string'', ''  - (root): must match schema'']
              ((ensureDirectories (syncProfiles sampleEnv sampleWorld) [''proj''])
                 \<lparr> wSchemaCache := Some ''{}'' \<rparr>))
   \<and> wFiles ((ensureDirectories (syncProfiles sampleEnv sampleWorld) [''proj''])
                \<lparr> wSchemaCache := Some ''{}'' \<rparr>) [''proj'', ''.opencode'', ''backups'']
       = Some Directory
   \<and> wFiles sampleWorld [''proj'', ''.opencode'', ''backups''] = None"
proof (intro conjI)
  from sample_reach_user obtain ctx where
    r: "reachValidation sampleEnv ''bad'' ''user'' sampleWorld = Inr ctx"
    and root: "ctxProjectRoot ctx = None"
    and v: "ctxValidation ctx = (False, [''/bad: must be string'', ''(root): must match schema''])"
    by (auto split: sum.splits)
  have "wSchemaCache (syncProfiles sampleEnv sampleWorld) = None"
    by (simp add: syncProfiles_frame sampleWorld_def)
  with reachValidation_world [OF r] root
  have w: "ctxWorld ctx = (syncProfiles sampleEnv sampleWorld)\<lparr> wSchemaCache := Some ''{}'' \<rparr>"
    by (simp add: sample_schema)
  from apply_exits_when_invalid [OF r] v w
  show "handleOmoApply sampleEnv ''bad'' ''user'' sampleWorld
     = Inr (Failed ''Configuration validation failed''
              [''Validation errors:'', ''  - /bad: must be string'', ''  - (root): must match schema'']
              ((syncProfiles sampleEnv sampleWorld)\<lparr> wSchemaCache := Some ''{}'' \<rparr>))"
    by simp
next
  have "wIndex (syncProfiles sampleEnv sampleWorld) \<noteq> wIndex sampleWorld"
    by code_simp
  then show "wIndex ((syncProfiles sampleEnv sampleWorld)\<lparr> wSchemaCache := Some ''{}'' \<rparr>)
       \<noteq> wIndex sampleWorld"
    by simp
next
  from sample_reach_project obtain ctx where
    r: "reachValidation sampleEnv ''bad'' ''project'' sampleWorld = Inr ctx"
    and root: "ctxProjectRoot ctx = Some [''proj'']"
    and v: "ctxValidation ctx = (False, [''/bad: must be string'', ''(root): must match schema''])"
    by (auto split: sum.splits)
  have "wSchemaCache (ensureDirectories (syncProfiles sampleEnv sampleWorld) [''proj'']) = None"
    by (simp add: ensureDirectories_frame syncProfiles_frame sampleWorld_def)
  with reachValidation_world [OF r] root
  have w: "ctxWorld ctx = (ensureDirectories (syncProfiles sampleEnv sampleWorld) [''proj''])
                            \<lparr> wSchemaCache := Some ''{}'' \<rparr>"
    by (simp add: sample_schema)
  from apply_exits_when_invalid [OF r] v w
  show "handleOmoApply sampleEnv ''bad'' ''project'' sampleWorld
     = Inr (Failed ''Configuration validation failed''
              [''Validation errors:'', ''  - /bad: must be string'', ''  - (root): must match schema'']
              ((ensureDirectories (syncProfiles sampleEnv sampleWorld) [''proj''])
                 \<lparr> wSchemaCache := Some ''{}'' \<rparr>))"
    by simp
next
  have "wFiles (ensureDirectories (syncProfiles sampleEnv sampleWorld) [''proj''])
          [''proj'', ''.opencode'', ''backups''] = Some Directory"
    by code_simp
  then show "wFiles ((ensureDirectories (syncProfiles sampleEnv sampleWorld) [''proj''])
                \<lparr> wSchemaCache := Some ''{}'' \<rparr>) [''proj'', ''.opencode'', ''backups'']
       = Some Directory"
    by simp
next
  show "wFiles sampleWorld [''proj'', ''.opencode'', ''backups''] = None"
    by code_simp
qed

text \<open>
  C6, amended: when the chosen profile's content fails schema validation, the apply
  operation reports the validator's messages and exits before the backup, the write of
  the target and the activation. For user scope no file outside the global store has
  changed; for project scope the project's target file, its backup files and its rc
  record are as before; the backups and the config files of the global store are as
  before. The store index is as before except for the entries that the synchronisation
  appends for config files it did not list: its version, its \<^verbatim>\<open>activeProfileId\<close> and its
  existing entries are kept, in their order, and when every config file is listed the
  index file is unchanged. (For project scope the directories of the project, its backups
  directory among them, are created before the validation when they are missing.)
\<close>

theorem handleOmoApply_invalid_aborts:
  assumes r: "reachValidation env identifier scope w = Inr ctx"
    and nv: "\<not> fst (ctxValidation ctx)"
  shows "handleOmoApply env identifier scope w
         = Inr (Failed ''Configuration validation failed''
                  (''Validation errors:'' # map (\<lambda>err. ''  - '' @ err) (snd (ctxValidation ctx)))
                  (ctxWorld ctx))
       \<and> wGlobalBackups (ctxWorld ctx) = wGlobalBackups w
       \<and> wGlobalConfigs (ctxWorld ctx) = wGlobalConfigs w
       \<and> wProjectConfigs (ctxWorld ctx) = wProjectConfigs w
       \<and> activeProfileId (loadIndex (ctxWorld ctx)) = activeProfileId (loadIndex w)
       \<and> loadIndex (ctxWorld ctx)
           = (loadIndex w)\<lparr> profiles := profiles (loadIndex w)
                @ map (\<lambda>ident. \<lparr> profileId = ident, profileName = ident,
                                   profileConfig = JObject [],
                                   createdAt = envTimestamp env, updatedAt = envTimestamp env \<rparr>)
                    (orphanIds w) \<rparr>
       \<and> (orphanIds w = [] \<longrightarrow> wIndex (ctxWorld ctx) = wIndex w)
       \<and> (scope = ''user'' \<or> scope = ''project'')
       \<and> (scope = ''user'' \<longrightarrow> wFiles (ctxWorld ctx) = wFiles w)
       \<and> (scope = ''project'' \<longrightarrow>
            wFiles (ctxWorld ctx) (getProjectTargetPath (resolveProjectRoot (wFiles w) (envCwd env) None))
              = wFiles w (getProjectTargetPath (resolveProjectRoot (wFiles w) (envCwd env) None))
            \<and> (\<forall>name.
                 wFiles (ctxWorld ctx)
                   (projectBackupsPath (resolveProjectRoot (wFiles w) (envCwd env) None) @ [name])
                 = wFiles w
                     (projectBackupsPath (resolveProjectRoot (wFiles w) (envCwd env) None) @ [name]))
            \<and> loadRc env (ctxWorld ctx) (resolveProjectRoot (wFiles w) (envCwd env) None)
                = loadRc env w (resolveProjectRoot (wFiles w) (envCwd env) None))"
proof -
  let ?w2 = "case ctxProjectRoot ctx of
               Some root \<Rightarrow> ensureDirectories (syncProfiles env w) root
             | None \<Rightarrow> syncProfiles env w"
  note s = ensureSchemaAvailable_frame [OF reachValidation_world [OF r]]
  have out: "handleOmoApply env identifier scope w
         = Inr (Failed ''Configuration validation failed''
                  (''Validation errors:'' # map (\<lambda>err. ''  - '' @ err) (snd (ctxValidation ctx)))
                  (ctxWorld ctx))"
    using r nv by (rule apply_exits_when_invalid)
  have bk: "wGlobalBackups (ctxWorld ctx) = wGlobalBackups w"
    by (simp add: s syncProfiles_frame ensureDirectories_frame split: option.splits)
  have gc: "wGlobalConfigs (ctxWorld ctx) = wGlobalConfigs w"
    by (simp add: s syncProfiles_frame ensureDirectories_frame split: option.splits)
  have pc: "wProjectConfigs (ctxWorld ctx) = wProjectConfigs w"
    by (simp add: s syncProfiles_frame ensureDirectories_frame split: option.splits)
  have wi: "wIndex (ctxWorld ctx) = wIndex (syncProfiles env w)"
    by (simp add: s ensureDirectories_frame split: option.splits)
  then have li: "loadIndex (ctxWorld ctx) = loadIndex (syncProfiles env w)"
    by (simp add: loadIndex_def)
  then have ix: "activeProfileId (loadIndex (ctxWorld ctx)) = activeProfileId (loadIndex w)"
    by (simp add: syncProfiles_frame)
  have ap: "loadIndex (ctxWorld ctx)
           = (loadIndex w)\<lparr> profiles := profiles (loadIndex w)
                @ map (\<lambda>ident. \<lparr> profileId = ident, profileName = ident,
                                   profileConfig = JObject [],
                                   createdAt = envTimestamp env, updatedAt = envTimestamp env \<rparr>)
                    (orphanIds w) \<rparr>"
    unfolding li by (rule loadIndex_syncProfiles)
  have un: "orphanIds w = [] \<longrightarrow> wIndex (ctxWorld ctx) = wIndex w"
    by (simp add: wi wIndex_syncProfiles)
  from reachValidation_root [OF r] show ?thesis
  proof (elim disjE conjE)
    assume u: "scope = ''user''" "ctxProjectRoot ctx = None"
    then have "wFiles (ctxWorld ctx) = wFiles w"
      by (simp add: s syncProfiles_frame)
    with out bk gc pc ix ap un u show ?thesis by simp
  next
    assume p: "scope = ''project''"
      "ctxProjectRoot ctx = Some (resolveProjectRoot (wFiles w) (envCwd env) None)"
    let ?root = "resolveProjectRoot (wFiles w) (envCwd env) None"
    from p have f: "wFiles (ctxWorld ctx) = wFiles (ensureDirectories (syncProfiles env w) ?root)"
      by (simp add: s)
    have t: "wFiles (ctxWorld ctx) (getProjectTargetPath ?root) = wFiles w (getProjectTargetPath ?root)"
      by (simp add: f ensureDirectories_protected syncProfiles_frame)
    have b: "wFiles (ctxWorld ctx) (projectBackupsPath ?root @ [name])
              = wFiles w (projectBackupsPath ?root @ [name])" for name
      by (simp add: f ensureDirectories_protected syncProfiles_frame)
    have "wFiles (ctxWorld ctx) (getProjectRcPath ?root) = wFiles w (getProjectRcPath ?root)"
      by (simp add: f ensureDirectories_protected syncProfiles_frame)
    then have c: "loadRc env (ctxWorld ctx) ?root = loadRc env w ?root"
      by (rule loadRc_cong)
    from out bk gc pc ix ap un p t b c show ?thesis by simp
  qed
qed

theorem handleOmoApply_invalid_aborts_witness:
  "(\<exists>ctx. reachValidation sampleEnv ''bad'' ''user'' sampleWorld = Inr ctx
          \<and> \<not> fst (ctxValidation ctx)
          \<and> handleOmoApply sampleEnv ''bad'' ''user'' sampleWorld
              = Inr (Failed ''Configuration validation failed''
                       [''Validation errors:'', ''  - /bad: must be string'',
                        ''  - (root): must match schema'']
                       (ctxWorld ctx))
          \<and> wFiles (ctxWorld ctx) = wFiles sampleWorld
          \<and> wGlobalBackups (ctxWorld ctx) = wGlobalBackups sampleWorld
          \<and> activeProfileId (loadIndex (ctxWorld ctx)) = Some ''work''
          \<and> storeVersion (loadIndex (ctxWorld ctx)) = storeVersion (loadIndex sampleWorld)
          \<and> profiles (loadIndex (ctxWorld ctx))
              = profiles (loadIndex sampleWorld)
                @ [\<lparr> profileId = ''bad'', profileName = ''bad'', profileConfig = JObject [],
                     createdAt = envTimestamp sampleEnv, updatedAt = envTimestamp sampleEnv \<rparr>])
   \<and> (\<exists>ctx. reachValidation sampleEnv ''bad'' ''project'' sampleWorld = Inr ctx
          \<and> \<not> fst (ctxValidation ctx)
          \<and> handleOmoApply sampleEnv ''bad'' ''project'' sampleWorld
              = Inr (Failed ''Configuration validation failed''
                       [''Validation errors:'', ''  - /bad: must be string'',
                        ''  - (root): must match schema'']
                       (ctxWorld ctx))
          \<and> wFiles (ctxWorld ctx) [''proj'', ''.opencode'', ''oh-my-opencode.jsonc''] = None
          \<and> loadRc sampleEnv (ctxWorld ctx) [''proj'']
              = Inr (JObject [(''activeProfileId'', JString ''work'')]))"
proof (intro conjI)
  from sample_reach_user obtain ctx where
    r: "reachValidation sampleEnv ''bad'' ''user'' sampleWorld = Inr ctx"
    and v: "ctxValidation ctx = (False, [''/bad: must be string'', ''(root): must match schema''])"
    by (auto split: sum.splits)
  from v have nv: "\<not> fst (ctxValidation ctx)" by simp
  have act: "activeProfileId (loadIndex sampleWorld) = Some ''work''"
    by code_simp
  have orphans: "orphanIds sampleWorld = [''bad'']"
    by code_simp
  from handleOmoApply_invalid_aborts [OF r nv]
  have "handleOmoApply sampleEnv ''bad'' ''user'' sampleWorld
         = Inr (Failed ''Configuration validation failed''
                  (''Validation errors:'' # map (\<lambda>err. ''  - '' @ err) (snd (ctxValidation ctx)))
                  (ctxWorld ctx))
       \<and> wGlobalBackups (ctxWorld ctx) = wGlobalBackups sampleWorld
       \<and> activeProfileId (loadIndex (ctxWorld ctx)) = activeProfileId (loadIndex sampleWorld)
       \<and> loadIndex (ctxWorld ctx)
           = (loadIndex sampleWorld)\<lparr> profiles := profiles (loadIndex sampleWorld)
                @ map (\<lambda>ident. \<lparr> profileId = ident, profileName = ident,
                                   profileConfig = JObject [],
                                   createdAt = envTimestamp sampleEnv,
                                   updatedAt = envTimestamp sampleEnv \<rparr>)
                    (orphanIds sampleWorld) \<rparr>
       \<and> wFiles (ctxWorld ctx) = wFiles sampleWorld"
    by simp
  with r nv v act orphans
  show "\<exists>ctx. reachValidation sampleEnv ''bad'' ''user'' sampleWorld = Inr ctx
          \<and> \<not> fst (ctxValidation ctx)
          \<and> handleOmoApply sampleEnv ''bad'' ''user'' sampleWorld
              = Inr (Failed ''Configuration validation failed''
                       [''Validation errors:'', ''  - /bad: must be string'',
                        ''  - (root): must match schema'']
                       (ctxWorld ctx))
          \<and> wFiles (ctxWorld ctx) = wFiles sampleWorld
          \<and> wGlobalBackups (ctxWorld ctx) = wGlobalBackups sampleWorld
          \<and> activeProfileId (loadIndex (ctxWorld ctx)) = Some ''work''
          \<and> storeVersion (loadIndex (ctxWorld ctx)) = storeVersion (loadIndex sampleWorld)
          \<and> profiles (loadIndex (ctxWorld ctx))
              = profiles (loadIndex sampleWorld)
                @ [\<lparr> profileId = ''bad'', profileName = ''bad'', profileConfig = JObject [],
                     createdAt = envTimestamp sampleEnv, updatedAt = envTimestamp sampleEnv \<rparr>]"
    by auto
next
  from sample_reach_project obtain ctx where
    r: "reachValidation sampleEnv ''bad'' ''project'' sampleWorld = Inr ctx"
    and v: "ctxValidation ctx = (False, [''/bad: must be string'', ''(root): must match schema''])"
    by (auto split: sum.splits)
  from v have nv: "\<not> fst (ctxValidation ctx)" by simp
  have root: "resolveProjectRoot (wFiles sampleWorld) (envCwd sampleEnv) None = [''proj'']"
    by code_simp
  have tgt: "wFiles sampleWorld (getProjectTargetPath [''proj'']) = None"
    by code_simp
  have tp: "getProjectTargetPath [''proj''] = [''proj'', ''.opencode'', ''oh-my-opencode.jsonc'']"
    by code_simp
  have rc: "loadRc sampleEnv sampleWorld [''proj''] = Inr (JObject [(''activeProfileId'', JString ''work'')])"
    by code_simp
  from handleOmoApply_invalid_aborts [OF r nv]
  have "handleOmoApply sampleEnv ''bad'' ''project'' sampleWorld
         = Inr (Failed ''Configuration validation failed''
                  (''Validation errors:'' # map (\<lambda>err. ''  - '' @ err) (snd (ctxValidation ctx)))
                  (ctxWorld ctx))
       \<and> wFiles (ctxWorld ctx) (getProjectTargetPath [''proj''])
          = wFiles sampleWorld (getProjectTargetPath [''proj''])
       \<and> loadRc sampleEnv (ctxWorld ctx) [''proj''] = loadRc sampleEnv sampleWorld [''proj'']"
    by (simp add: root)
  with r nv v tgt tp rc
  show "\<exists>ctx. reachValidation sampleEnv ''bad'' ''project'' sampleWorld = Inr ctx
          \<and> \<not> fst (ctxValidation ctx)
          \<and> handleOmoApply sampleEnv ''bad'' ''project'' sampleWorld
              = Inr (Failed ''Configuration validation failed''
                       [''Validation errors:'', ''  - /bad: must be string'',
                        ''  - (root): must match schema'']
                       (ctxWorld ctx))
          \<and> wFiles (ctxWorld ctx) [''proj'', ''.opencode'', ''oh-my-opencode.jsonc''] = None
          \<and> loadRc sampleEnv (ctxWorld ctx) [''proj'']
              = Inr (JObject [(''activeProfileId'', JString ''work'')])"
    by auto
qed

end
